theory Spec2Isabelle
  imports Complex_Main "HOL-Library.AList"
begin

section \<open>Python values\<close>

text \<open>
  The memory store keeps JSON documents, which the Python code handles as nested
  \<^verbatim>\<open>dict\<close>, \<^verbatim>\<open>list\<close>, \<^verbatim>\<open>str\<close>, number, \<^verbatim>\<open>bool\<close> and \<^verbatim>\<open>None\<close> values.
  An \<^verbatim>\<open>int\<close> is an unbounded integer; a \<^verbatim>\<open>float\<close> is modelled as a real
  (rounding, infinities and NaN are not modelled). A \<^verbatim>\<open>dict\<close> is an association
  list in insertion order, strings are lists of 8-bit characters.
\<close>

datatype json =
    JNull
  | JBool bool
  | JInt int
  | JFloat real
  | JStr string
  | JArr "json list"
  | JObj "(string \<times> json) list"

type_synonym dict = "(string \<times> json) list"

text \<open>
  A message of a validation result is an f-string: literal text with interpolated
  values. The pieces are kept apart, since the text of \<^verbatim>\<open>str(value)\<close> for a float, a
  list or a dict, of \<^verbatim>\<open>type(value).__name__\<close> and of a \<^verbatim>\<open>set\<close> is produced by
  the Python runtime and not by this program.
\<close>

datatype frag =
    Lit string
  | Val json
  | TypeName json
  | KeySet "string list"
  | StrList "string list"

type_synonym message = "frag list"

text \<open>
  The exceptions the modelled code can raise. \<open>MSPBackupError e\<close> and
  \<open>MSPConsolidationError e\<close> are the two classes of MSP.py raised from an
  \<^verbatim>\<open>except\<close> clause for the exception \<open>e\<close> caught;
  \<open>MSPConsolidationError_msg\<close> is an \<^verbatim>\<open>MSPConsolidationError\<close> raised with
  a message of its own.
\<close>

datatype error =
    RuntimeError string
  | TypeError
  | ValueError
  | AttributeError
  | KeyError
  | OSError
  | MSPValidationError "message list"
  | MSPBackupError error
  | MSPConsolidationError error
  | MSPConsolidationError_msg string

text \<open>Sequencing of computations that may raise.\<close>

definition bindE :: "error + 'a \<Rightarrow> ('a \<Rightarrow> error + 'b) \<Rightarrow> error + 'b" where
  "bindE m f = (case m of Inl e \<Rightarrow> Inl e | Inr x \<Rightarrow> f x)"

text \<open>\<^verbatim>\<open>k in d\<close>, \<^verbatim>\<open>d.get(k)\<close>, \<^verbatim>\<open>d.get(k, default)\<close> and \<^verbatim>\<open>d[k] = v\<close> on a dict.\<close>

definition dict_contains :: "dict \<Rightarrow> string \<Rightarrow> bool" where
  "dict_contains d k = (map_of d k \<noteq> None)"

definition dict_get :: "dict \<Rightarrow> string \<Rightarrow> json" where
  "dict_get d k = (case map_of d k of None \<Rightarrow> JNull | Some v \<Rightarrow> v)"

definition dict_get_default :: "dict \<Rightarrow> string \<Rightarrow> json \<Rightarrow> json" where
  "dict_get_default d k dflt = (case map_of d k of None \<Rightarrow> dflt | Some v \<Rightarrow> v)"

definition dict_set :: "dict \<Rightarrow> string \<Rightarrow> json \<Rightarrow> dict" where
  "dict_set d k v = AList.update k v d"

text \<open>Python truthiness (\<^verbatim>\<open>if x:\<close>) of a JSON value.\<close>

fun truthy :: "json \<Rightarrow> bool" where
  "truthy JNull = False"
| "truthy (JBool b) = b"
| "truthy (JInt i) = (i \<noteq> 0)"
| "truthy (JFloat r) = (r \<noteq> 0)"
| "truthy (JStr s) = (s \<noteq> [])"
| "truthy (JArr xs) = (xs \<noteq> [])"
| "truthy (JObj kvs) = (kvs \<noteq> [])"

text \<open>
  The numeric value of a Python object in arithmetic and comparisons with a number:
  \<^verbatim>\<open>bool\<close> is a subclass of \<^verbatim>\<open>int\<close>; anything else raises \<^verbatim>\<open>TypeError\<close>
  (\<open>None\<close> here). This is also \<^verbatim>\<open>isinstance(value, (int, float))\<close>.
\<close>

fun as_number :: "json \<Rightarrow> real option" where
  "as_number (JInt i) = Some (real_of_int i)"
| "as_number (JFloat r) = Some r"
| "as_number (JBool b) = Some (if b then 1 else 0)"
| "as_number _ = None"

section \<open>Strings and dynamic typing\<close>

text \<open>\<^verbatim>\<open>s.startswith(p)\<close> and the substring test \<^verbatim>\<open>p in s\<close> on strings.\<close>

fun startswith :: "string \<Rightarrow> string \<Rightarrow> bool" where
  "startswith s [] = True"
| "startswith [] (p # ps) = False"
| "startswith (c # s) (p # ps) = (c = p \<and> startswith s ps)"

fun str_contains :: "string \<Rightarrow> string \<Rightarrow> bool" where
  "str_contains [] p = (p = [])"
| "str_contains (c # s) p = (startswith (c # s) p \<or> str_contains s p)"

text \<open>The apostrophe, for the quoted parts of messages.\<close>

definition quote :: string where
  "quote = [CHR 0x27]"

text \<open>Decimal digits of a natural number, as in \<^verbatim>\<open>f"{i}"\<close>.\<close>

definition digit_char :: "nat \<Rightarrow> char" where
  "digit_char d = char_of (48 + d)"

fun show_nat :: "nat \<Rightarrow> string" where
  "show_nat n = (if n < 10 then [digit_char n] else show_nat (n div 10) @ [digit_char (n mod 10)])"

declare show_nat.simps [simp del]

text \<open>
  \<^verbatim>\<open>key in x\<close> followed by \<^verbatim>\<open>x[key]\<close> for a string key and an arbitrary value
  \<open>x\<close>: on a dict the member or nothing; on a string (substring test) or a list
  (membership) that holds the key the subscript raises \<^verbatim>\<open>TypeError\<close>; on any other
  value the \<^verbatim>\<open>in\<close> itself raises \<^verbatim>\<open>TypeError\<close>.
\<close>

fun opt_member :: "json \<Rightarrow> string \<Rightarrow> error + json option" where
  "opt_member (JObj d) k = Inr (map_of d k)"
| "opt_member (JStr s) k = (if str_contains s k then Inl TypeError else Inr None)"
| "opt_member (JArr xs) k = (if JStr k \<in> set xs then Inl TypeError else Inr None)"
| "opt_member _ k = Inl TypeError"

text \<open>\<^verbatim>\<open>x.get(key, default)\<close> on an arbitrary value: only a dict has \<^verbatim>\<open>get\<close>.\<close>

fun py_get :: "json \<Rightarrow> string \<Rightarrow> json \<Rightarrow> error + json" where
  "py_get (JObj d) k dflt = Inr (dict_get_default d k dflt)"
| "py_get _ k dflt = Inl AttributeError"

text \<open>\<^verbatim>\<open>for x in v\<close>: a list yields its items, a dict its keys, a string its characters.\<close>

fun py_iter :: "json \<Rightarrow> error + json list" where
  "py_iter (JArr xs) = Inr xs"
| "py_iter (JObj d) = Inr (map (\<lambda>kv. JStr (fst kv)) d)"
| "py_iter (JStr s) = Inr (map (\<lambda>c. JStr [c]) s)"
| "py_iter _ = Inl TypeError"

text \<open>
  Equality and hashing of set members and dict keys: lists and dicts are unhashable;
  numbers (and booleans) are equal when their values are.
\<close>

fun hashable :: "json \<Rightarrow> bool" where
  "hashable (JArr xs) = False"
| "hashable (JObj d) = False"
| "hashable _ = True"

fun key_eq :: "json \<Rightarrow> json \<Rightarrow> bool" where
  "key_eq JNull JNull = True"
| "key_eq (JStr a) (JStr b) = (a = b)"
| "key_eq a b =
     (case (as_number a, as_number b) of (Some x, Some y) \<Rightarrow> x = y | _ \<Rightarrow> False)"

section \<open>Validation results and shared checks (validation/base\_validator.py)\<close>

record ValidationResult =
  valid :: bool
  errors :: "message list"
  warnings :: "message list"
  info :: "message list"
  result_context :: dict

definition create_result :: ValidationResult where
  "create_result = \<lparr>valid = True, errors = [], warnings = [], info = [], result_context = []\<rparr>"

definition add_error :: "message \<Rightarrow> ValidationResult \<Rightarrow> ValidationResult" where
  "add_error m r = r\<lparr>errors := errors r @ [m], valid := False\<rparr>"

definition add_warning :: "message \<Rightarrow> ValidationResult \<Rightarrow> ValidationResult" where
  "add_warning m r = r\<lparr>warnings := warnings r @ [m]\<rparr>"

definition add_info :: "message \<Rightarrow> ValidationResult \<Rightarrow> ValidationResult" where
  "add_info m r = r\<lparr>info := info r @ [m]\<rparr>"

definition dict_update_all :: "dict \<Rightarrow> dict \<Rightarrow> dict" where
  "dict_update_all d other = foldl (\<lambda>acc kv. dict_set acc (fst kv) (snd kv)) d other"

definition merge :: "ValidationResult \<Rightarrow> ValidationResult \<Rightarrow> ValidationResult" where
  "merge r other =
     \<lparr>valid = (valid r \<and> valid other),
      errors = errors r @ errors other,
      warnings = warnings r @ warnings other,
      info = info r @ info other,
      result_context = dict_update_all (result_context r) (result_context other)\<rparr>"

text \<open>\<^verbatim>\<open>_check_required_fields\<close> with the default empty \<^verbatim>\<open>path\<close>.\<close>

fun check_required_fields :: "dict \<Rightarrow> string list \<Rightarrow> ValidationResult \<Rightarrow> ValidationResult" where
  "check_required_fields data [] result = result"
| "check_required_fields data (field # required_fields) result =
     check_required_fields data required_fields
       (if \<not> dict_contains data field
        then add_error [Lit ''Missing required field: '', Lit quote, Lit field, Lit quote] result
        else result)"

text \<open>\<^verbatim>\<open>value not in valid_values\<close> for a list of strings: only an equal string is in it.\<close>

definition in_strings :: "json \<Rightarrow> string list \<Rightarrow> bool" where
  "in_strings v valid_values = (case v of JStr s \<Rightarrow> s \<in> set valid_values | _ \<Rightarrow> False)"

definition check_enum_value ::
  "json \<Rightarrow> string list \<Rightarrow> string \<Rightarrow> ValidationResult \<Rightarrow> ValidationResult" where
  "check_enum_value v valid_values field_name result =
     (if \<not> in_strings v valid_values
      then add_error [Lit ''Invalid enum value for '', Lit quote, Lit field_name, Lit quote, Lit '': '',
                      Lit quote, Val v, Lit quote, Lit '' not in '', StrList valid_values] result
      else result)"

definition check_range ::
  "json \<Rightarrow> real \<Rightarrow> real \<Rightarrow> string \<Rightarrow> ValidationResult \<Rightarrow> ValidationResult" where
  "check_range v min_val max_val field_name result =
     (case as_number v of
        None \<Rightarrow> add_error [Lit ''Field '', Lit quote, Lit field_name, Lit quote, Lit '' must be numeric, got '',
                            TypeName v] result
      | Some x \<Rightarrow>
          if \<not> (min_val \<le> x \<and> x \<le> max_val)
          then add_error [Lit ''Field '', Lit quote, Lit field_name, Lit quote, Lit '' value '', Val v,
                          Lit '' out of range ['', Val (JFloat min_val), Lit '', '',
                          Val (JFloat max_val), Lit '']''] result
          else result)"

text \<open>
  \<^verbatim>\<open>_scan_for_forbidden_fields\<close>, returning the errors it adds in order. A dict is
  scanned key by key; a dict value is scanned recursively, of a list value only the
  items that are dicts.
\<close>

fun scan_dict :: "string list \<Rightarrow> string \<Rightarrow> (string \<times> json) list \<Rightarrow> message list"
  and scan_value :: "string list \<Rightarrow> string \<Rightarrow> json \<Rightarrow> message list"
  and scan_items :: "string list \<Rightarrow> string \<Rightarrow> nat \<Rightarrow> json list \<Rightarrow> message list"
where
  "scan_dict forbidden_fields path [] = []"
| "scan_dict forbidden_fields path ((key, v) # rest) =
     (let current_path = (if path \<noteq> [] then path @ ''.'' @ key else key)
      in (if key \<in> set forbidden_fields
          then [[Lit ''Forbidden field found: '', Lit quote, Lit current_path, Lit quote]]
          else [])
         @ scan_value forbidden_fields current_path v
         @ scan_dict forbidden_fields path rest)"
| "scan_value forbidden_fields current_path (JObj d) = scan_dict forbidden_fields current_path d"
| "scan_value forbidden_fields current_path (JArr xs) = scan_items forbidden_fields current_path 0 xs"
| "scan_value forbidden_fields current_path JNull = []"
| "scan_value forbidden_fields current_path (JBool b) = []"
| "scan_value forbidden_fields current_path (JInt i) = []"
| "scan_value forbidden_fields current_path (JFloat r) = []"
| "scan_value forbidden_fields current_path (JStr s) = []"
| "scan_items forbidden_fields current_path i [] = []"
| "scan_items forbidden_fields current_path i (item # items) =
     (case item of
        JObj d \<Rightarrow>
          scan_dict forbidden_fields (current_path @ ''['' @ show_nat i @ '']'') d
      | _ \<Rightarrow> [])
     @ scan_items forbidden_fields current_path (Suc i) items"

definition scan_for_forbidden_fields ::
  "dict \<Rightarrow> string list \<Rightarrow> ValidationResult \<Rightarrow> ValidationResult" where
  "scan_for_forbidden_fields data forbidden_fields result =
     fold add_error (scan_dict forbidden_fields [] data) result"

section \<open>Episodic validator (validation/episodic\_validator.py)\<close>

definition quoted :: "string \<Rightarrow> string" where
  "quoted s = quote @ s @ quote"

definition EPISODE_TYPES :: "string list" where
  "EPISODE_TYPES = [''interaction'', ''observation'', ''system_event'']"

definition INTERACTION_MODES :: "string list" where
  "INTERACTION_MODES = [''casual'', ''discussion'', ''deep_discussion'', ''crisis'']"

definition STAKES_LEVELS :: "string list" where
  "STAKES_LEVELS = [''low'', ''medium'', ''high'']"

definition TIME_PRESSURES :: "string list" where
  "TIME_PRESSURES = [''low'', ''medium'', ''high'']"

definition SPEAKER_VALUES :: "string list" where
  "SPEAKER_VALUES = [''user'', ''eva'']"

definition EpisodicValidator_EPISTEMIC_STATUSES :: "string list" where
  "EpisodicValidator_EPISTEMIC_STATUSES = [''hypothesize'', ''speculate'']"

definition EVA_MATRIX_AXES :: "string list" where
  "EVA_MATRIX_AXES = [''stress_load'', ''social_warmth'', ''drive_level'', ''cognitive_clarity'']"

definition CROSSLINK_TYPES :: "string list" where
  "CROSSLINK_TYPES =
     [''ess_refs'', ''eva_matrix_refs'', ''rms_refs'', ''semantic_refs'', ''sensory_refs'',
      ''gks_refs'']"

definition EPISODIC_FORBIDDEN_FIELDS :: "string list" where
  "EPISODIC_FORBIDDEN_FIELDS =
     [''RI'', ''RIM'', ''Resonance_impact'', ''salience_score'', ''memory_color_ref'',
      ''dose_input'', ''D_Remaining'', ''D_Cumulative'', ''hormone_level'', ''PK_state'',
      ''promotion_level'', ''write_mode'', ''admission_priority'',
      ''emotion_label'', ''primary_emotion'', ''emotional_label'']"

text \<open>The pattern \<^verbatim>\<open>if key in x: self._check_enum_value(x[key], ...)\<close>.\<close>

definition check_member_enum ::
  "json \<Rightarrow> string \<Rightarrow> string list \<Rightarrow> string \<Rightarrow> ValidationResult \<Rightarrow> error + ValidationResult" where
  "check_member_enum x key valid_values field_name result =
     bindE (opt_member x key)
       (\<lambda>m. Inr (case m of
                    None \<Rightarrow> result
                  | Some v \<Rightarrow> check_enum_value v valid_values field_name result))"

definition validate_affective_inference ::
  "json \<Rightarrow> string \<Rightarrow> ValidationResult \<Rightarrow> ValidationResult" where
  "validate_affective_inference affective path result =
     (case affective of
        JObj d \<Rightarrow>
          (case map_of d ''epistemic_status'' of
             Some v \<Rightarrow>
               check_enum_value v EpisodicValidator_EPISTEMIC_STATUSES
                 (path @ ''.affective_inference.epistemic_status'') result
           | None \<Rightarrow>
               add_error [Lit path, Lit ''.affective_inference missing '',
                          Lit (quoted ''epistemic_status'')] result)
      | _ \<Rightarrow> add_error [Lit path, Lit ''.affective_inference must be an object''] result)"

text \<open>
  The loop of \<^verbatim>\<open>_validate_turns\<close>; \<open>turn_ids_seen\<close> is the set of ids met so far.
  Testing an unhashable id against the set raises \<^verbatim>\<open>TypeError\<close>.
\<close>

fun turns_loop ::
  "nat \<Rightarrow> json list \<Rightarrow> json list \<Rightarrow> ValidationResult \<Rightarrow> error + ValidationResult" where
  "turns_loop i turn_ids_seen [] result = Inr result"
| "turns_loop i turn_ids_seen (turn # turns) result =
     (case turn of
        JObj t \<Rightarrow>
          (case (case map_of t ''turn_id'' of
                   None \<Rightarrow>
                     Inr (turn_ids_seen,
                          add_error [Lit ''Turn ['', Lit (show_nat i), Lit ''] missing '',
                                     Lit (quoted ''turn_id'')] result)
                 | Some turn_id \<Rightarrow>
                     if \<not> hashable turn_id then Inl TypeError
                     else Inr (turn_ids_seen @ [turn_id],
                               if list_ex (key_eq turn_id) turn_ids_seen
                               then add_error [Lit ''Duplicate turn_id: '', Lit quote,
                                               Val turn_id, Lit quote] result
                               else result)) of
             Inl e \<Rightarrow> Inl e
           | Inr (seen', result1) \<Rightarrow>
               let result2 =
                     (case map_of t ''speaker'' of
                        Some sp \<Rightarrow>
                          check_enum_value sp SPEAKER_VALUES
                            (''turns['' @ show_nat i @ ''].speaker'') result1
                      | None \<Rightarrow> result1);
                   result3 =
                     (case map_of t ''affective_inference'' of
                        Some a \<Rightarrow>
                          validate_affective_inference a (''turns['' @ show_nat i @ '']'') result2
                      | None \<Rightarrow> result2)
               in turns_loop (Suc i) seen' turns result3)
      | _ \<Rightarrow>
          turns_loop (Suc i) turn_ids_seen turns
            (add_error [Lit ''Turn ['', Lit (show_nat i), Lit ''] must be an object''] result))"

definition validate_turns :: "json \<Rightarrow> ValidationResult \<Rightarrow> error + ValidationResult" where
  "validate_turns turns result =
     (case turns of
        JArr ts \<Rightarrow> turns_loop 0 [] ts result
      | _ \<Rightarrow> Inr (add_error [Lit (quoted ''turns''), Lit '' must be an array''] result))"

definition phase1_structural :: "dict \<Rightarrow> string \<Rightarrow> error + ValidationResult" where
  "phase1_structural episode_data ri_level =
     (let result0 = add_info [Lit ''Phase 1: Structural validation''] create_result;
          result1 =
            (if ri_level \<notin> set [''L1'', ''L2'']
             then check_required_fields episode_data
                    [''episode_header'', ''situation_context'', ''turns'', ''emotive_snapshot'']
                    result0
             else result0)
      in bindE (case map_of episode_data ''episode_header'' of
                  None \<Rightarrow> Inr result1
                | Some header \<Rightarrow>
                    check_member_enum header ''episode_type'' EPISODE_TYPES
                      ''episode_header.episode_type'' result1)
        (\<lambda>result2.
           bindE (case map_of episode_data ''situation_context'' of
                    None \<Rightarrow> Inr result2
                  | Some ctx \<Rightarrow>
                      bindE (check_member_enum ctx ''interaction_mode'' INTERACTION_MODES
                               ''situation_context.interaction_mode'' result2)
                        (\<lambda>r. bindE (check_member_enum ctx ''stakes_level'' STAKES_LEVELS
                                      ''situation_context.stakes_level'' r)
                          (\<lambda>r. check_member_enum ctx ''time_pressure'' TIME_PRESSURES
                                  ''situation_context.time_pressure'' r)))
             (\<lambda>result3.
                case map_of episode_data ''turns'' of
                  None \<Rightarrow> Inr result3
                | Some turns \<Rightarrow> validate_turns turns result3)))"

text \<open>
  \<^verbatim>\<open>_is_msp_id_format\<close>: on a string the heuristic itself. On a list or a dict
  \<^verbatim>\<open>"_" in id_value\<close> is a membership test, and when it fails
  \<^verbatim>\<open>id_value.startswith\<close> raises \<^verbatim>\<open>AttributeError\<close>; on other values the
  \<^verbatim>\<open>in\<close> raises \<^verbatim>\<open>TypeError\<close>.
\<close>

fun is_msp_id_format :: "json \<Rightarrow> error + bool" where
  "is_msp_id_format (JStr s) =
     Inr (str_contains s ''_'' \<or> startswith s ''t'' \<or> startswith s ''ep_'')"
| "is_msp_id_format (JArr xs) = (if JStr ''_'' \<in> set xs then Inr True else Inl AttributeError)"
| "is_msp_id_format (JObj d) = (if dict_contains d ''_'' then Inr True else Inl AttributeError)"
| "is_msp_id_format _ = Inl TypeError"

fun id_fields_loop :: "dict \<Rightarrow> string list \<Rightarrow> ValidationResult \<Rightarrow> ValidationResult" where
  "id_fields_loop episode_data [] result = result"
| "id_fields_loop episode_data (field # rest) result =
     id_fields_loop episode_data rest
       (case map_of episode_data field of
          Some (JStr s) \<Rightarrow>
            (if \<not> (str_contains s ''_'' \<or> startswith s ''t'' \<or> startswith s ''ep_'')
             then add_warning [Lit ''Field '', Lit (quoted field), Lit '' has non-MSP ID format: '',
                               Lit (quoted s)] result
             else result)
        | _ \<Rightarrow> result)"

fun turn_ids_loop :: "nat \<Rightarrow> json list \<Rightarrow> ValidationResult \<Rightarrow> error + ValidationResult" where
  "turn_ids_loop i [] result = Inr result"
| "turn_ids_loop i (turn # turns) result =
     bindE (opt_member turn ''turn_id'')
       (\<lambda>m. case m of
               None \<Rightarrow> turn_ids_loop (Suc i) turns result
             | Some turn_id \<Rightarrow>
                 bindE (is_msp_id_format turn_id)
                   (\<lambda>ok. turn_ids_loop (Suc i) turns
                            (if \<not> ok
                             then add_warning [Lit ''turns['', Lit (show_nat i),
                                               Lit ''].turn_id has non-MSP format: '', Lit quote,
                                               Val turn_id, Lit quote] result
                             else result)))"

definition phase2_epistemic :: "dict \<Rightarrow> error + ValidationResult" where
  "phase2_epistemic episode_data =
     (let result0 = add_info [Lit ''Phase 2: Epistemic validation''] create_result;
          result1 = id_fields_loop episode_data
                      [''episode_id'', ''context_id'', ''session_id'', ''user_id'', ''instance_id'']
                      result0
      in case map_of episode_data ''turns'' of
           None \<Rightarrow> Inr result1
         | Some turns \<Rightarrow> bindE (py_iter turns) (\<lambda>ts. turn_ids_loop 0 ts result1))"

fun axes_loop :: "dict \<Rightarrow> string list \<Rightarrow> ValidationResult \<Rightarrow> ValidationResult" where
  "axes_loop eva_matrix [] result = result"
| "axes_loop eva_matrix (axis # axes) result =
     axes_loop eva_matrix axes
       (case map_of eva_matrix axis of
          None \<Rightarrow>
            add_error [Lit ''eva_matrix missing required axis: '', Lit (quoted axis)] result
        | Some v \<Rightarrow> check_range v 0.0 1.0 (''eva_matrix.'' @ axis) result)"

text \<open>\<^verbatim>\<open>set(d.keys()) - set(allowed)\<close>, as the list of the keys left.\<close>

definition extra_keys :: "dict \<Rightarrow> string list \<Rightarrow> string list" where
  "extra_keys d allowed = filter (\<lambda>k. k \<notin> set allowed) (map fst d)"

definition validate_eva_matrix :: "json \<Rightarrow> ValidationResult \<Rightarrow> ValidationResult" where
  "validate_eva_matrix eva_matrix result =
     (case eva_matrix of
        JObj d \<Rightarrow>
          (let result1 = axes_loop d EVA_MATRIX_AXES result;
               extra_axes = extra_keys d EVA_MATRIX_AXES
           in if extra_axes \<noteq> []
              then add_error [Lit ''eva_matrix contains extra axes: '', KeySet extra_axes] result1
              else result1)
      | _ \<Rightarrow> add_error [Lit ''eva_matrix must be an object''] result)"

text \<open>\<^verbatim>\<open>_validate_qualia\<close> and \<^verbatim>\<open>_validate_reflex\<close> have one shape.\<close>

definition validate_single_field ::
  "string \<Rightarrow> string \<Rightarrow> json \<Rightarrow> ValidationResult \<Rightarrow> ValidationResult" where
  "validate_single_field name field v result =
     (case v of
        JObj d \<Rightarrow>
          (let result1 =
                 (case map_of d field of
                    None \<Rightarrow> add_error [Lit name, Lit '' missing '', Lit (quoted field)] result
                  | Some x \<Rightarrow> check_range x 0.0 1.0 (name @ ''.'' @ field) result);
               extra_fields = extra_keys d [field]
           in if extra_fields \<noteq> []
              then add_error [Lit name, Lit '' contains extra fields: '', KeySet extra_fields]
                     result1
              else result1)
      | _ \<Rightarrow> add_error [Lit name, Lit '' must be an object''] result)"

definition validate_qualia :: "json \<Rightarrow> ValidationResult \<Rightarrow> ValidationResult" where
  "validate_qualia qualia result = validate_single_field ''qualia'' ''intensity'' qualia result"

definition validate_reflex :: "json \<Rightarrow> ValidationResult \<Rightarrow> ValidationResult" where
  "validate_reflex reflex result = validate_single_field ''reflex'' ''threat_level'' reflex result"

definition phase3_state :: "dict \<Rightarrow> error + ValidationResult" where
  "phase3_state episode_data =
     (let result = add_info [Lit ''Phase 3: State validation''] create_result;
          emotive_snapshot = dict_get_default episode_data ''emotive_snapshot'' (JObj [])
      in bindE (py_get emotive_snapshot ''indexed_state'' (JObj []))
           (\<lambda>indexed_state.
              if \<not> truthy indexed_state
              then Inr (add_info [Lit ''No indexed_state present (acceptable for L1/L2)''] result)
              else
                bindE (opt_member indexed_state ''eva_matrix'')
                  (\<lambda>m1.
                     let result1 =
                           (case m1 of
                              Some eva_matrix \<Rightarrow> validate_eva_matrix eva_matrix result
                            | None \<Rightarrow>
                                add_error [Lit ''indexed_state missing '',
                                           Lit (quoted ''eva_matrix'')] result)
                     in bindE (opt_member indexed_state ''qualia'')
                          (\<lambda>m2.
                             let result2 =
                                   (case m2 of
                                      Some qualia \<Rightarrow> validate_qualia qualia result1
                                    | None \<Rightarrow>
                                        add_error [Lit ''indexed_state missing '',
                                                   Lit (quoted ''qualia'')] result1)
                             in bindE (opt_member indexed_state ''reflex'')
                                  (\<lambda>m3.
                                     Inr (case m3 of
                                            Some reflex \<Rightarrow> validate_reflex reflex result2
                                          | None \<Rightarrow>
                                              add_error [Lit ''indexed_state missing '',
                                                         Lit (quoted ''reflex'')] result2))))))"

fun crosslink_keys_loop :: "string list \<Rightarrow> ValidationResult \<Rightarrow> ValidationResult" where
  "crosslink_keys_loop [] result = result"
| "crosslink_keys_loop (key # keys) result =
     crosslink_keys_loop keys
       (if key \<notin> set CROSSLINK_TYPES
        then add_error [Lit ''Invalid crosslink type: '', Lit (quoted key)] result
        else result)"

fun crosslink_sub_loop :: "string \<Rightarrow> dict \<Rightarrow> ValidationResult \<Rightarrow> ValidationResult" where
  "crosslink_sub_loop key [] result = result"
| "crosslink_sub_loop key ((sub_key, sub_value) # rest) result =
     crosslink_sub_loop key rest
       (case sub_value of
          JObj d \<Rightarrow>
            (if length d > 5
             then add_warning [Lit ''crosslinks.'', Lit key, Lit ''.'', Lit sub_key,
                               Lit '' looks like embedded state (should be ID only)''] result
             else result)
        | _ \<Rightarrow> result)"

fun crosslink_item_loop :: "string \<Rightarrow> json list \<Rightarrow> ValidationResult \<Rightarrow> ValidationResult" where
  "crosslink_item_loop key [] result = result"
| "crosslink_item_loop key (item # items) result =
     crosslink_item_loop key items
       (case item of
          JStr s \<Rightarrow> result
        | _ \<Rightarrow> add_error [Lit ''crosslinks.'', Lit key, Lit '' should contain ID strings, not '',
                            TypeName item] result)"

fun crosslink_values_loop :: "dict \<Rightarrow> ValidationResult \<Rightarrow> ValidationResult" where
  "crosslink_values_loop [] result = result"
| "crosslink_values_loop ((key, v) # rest) result =
     crosslink_values_loop rest
       (if key \<in> set CROSSLINK_TYPES
        then (case v of
                JObj d \<Rightarrow> crosslink_sub_loop key d result
              | JArr items \<Rightarrow> crosslink_item_loop key items result
              | _ \<Rightarrow> result)
        else result)"

definition phase4_crosslinks :: "dict \<Rightarrow> error + ValidationResult" where
  "phase4_crosslinks episode_data =
     (let result = add_info [Lit ''Phase 4: Crosslinks validation''] create_result;
          emotive_snapshot = dict_get_default episode_data ''emotive_snapshot'' (JObj [])
      in bindE (py_get emotive_snapshot ''crosslinks'' (JObj []))
           (\<lambda>crosslinks.
              case crosslinks of
                JObj cl \<Rightarrow>
                  Inr (crosslink_values_loop cl (crosslink_keys_loop (map fst cl) result))
              | _ \<Rightarrow> Inr (add_error [Lit ''crosslinks must be an object''] result)))"

definition phase5_forbidden_content :: "dict \<Rightarrow> ValidationResult" where
  "phase5_forbidden_content episode_data =
     scan_for_forbidden_fields episode_data EPISODIC_FORBIDDEN_FIELDS
       (add_info [Lit ''Phase 5: Forbidden content check''] create_result)"

text \<open>\<^verbatim>\<open>EpisodicValidator.validate\<close>: the five phases in order, merged.\<close>

definition episodic_validate :: "dict \<Rightarrow> string \<Rightarrow> error + ValidationResult" where
  "episodic_validate episode_data ri_level =
     bindE (phase1_structural episode_data ri_level)
       (\<lambda>phase1_result.
          bindE (phase2_epistemic episode_data)
            (\<lambda>phase2_result.
               bindE (phase3_state episode_data)
                 (\<lambda>phase3_result.
                    bindE (phase4_crosslinks episode_data)
                      (\<lambda>phase4_result.
                         Inr (merge (merge (merge (merge (merge create_result phase1_result)
                                                     phase2_result) phase3_result) phase4_result)
                                (phase5_forbidden_content episode_data))))))"

section \<open>Confidence updater (validation/confidence\_updater.py)\<close>

datatype UpdateSignal =
    REPEATED_OCCURRENCE
  | CONSISTENT_RECALL
  | USER_AFFIRMATION
  | IMPLICIT_USER_SIGNAL
  | SYSTEM_CROSS_VALIDATION
  | CONFLICT_DETECTED
  | CONTRADICTION_BY_USER
  | INCONSISTENCY_OVER_TIME
  | SYSTEM_NOISE_DETECTED

datatype ResolutionState = UNRESOLVED | RESOLVED | SUPPRESSED

datatype EpistemicStatus = HYPOTHESIS | PROVISIONAL | CONFIRMED

datatype StakesLevel = LOW | MEDIUM | HIGH

text \<open>The \<^verbatim>\<open>.value\<close> of each enum member, and the enum constructor from a value.\<close>

fun UpdateSignal_value :: "UpdateSignal \<Rightarrow> string" where
  "UpdateSignal_value REPEATED_OCCURRENCE = ''repeated_occurrence''"
| "UpdateSignal_value CONSISTENT_RECALL = ''consistent_recall''"
| "UpdateSignal_value USER_AFFIRMATION = ''user_affirmation''"
| "UpdateSignal_value IMPLICIT_USER_SIGNAL = ''implicit_user_signal''"
| "UpdateSignal_value SYSTEM_CROSS_VALIDATION = ''system_cross_validation''"
| "UpdateSignal_value CONFLICT_DETECTED = ''conflict_detected''"
| "UpdateSignal_value CONTRADICTION_BY_USER = ''contradiction_by_user''"
| "UpdateSignal_value INCONSISTENCY_OVER_TIME = ''inconsistency_over_time''"
| "UpdateSignal_value SYSTEM_NOISE_DETECTED = ''system_noise_detected''"

definition all_UpdateSignals :: "UpdateSignal list" where
  "all_UpdateSignals =
     [REPEATED_OCCURRENCE, CONSISTENT_RECALL, USER_AFFIRMATION, IMPLICIT_USER_SIGNAL,
      SYSTEM_CROSS_VALIDATION, CONFLICT_DETECTED, CONTRADICTION_BY_USER,
      INCONSISTENCY_OVER_TIME, SYSTEM_NOISE_DETECTED]"

definition UpdateSignal_of :: "string \<Rightarrow> UpdateSignal option" where
  "UpdateSignal_of s = find (\<lambda>sig. UpdateSignal_value sig = s) all_UpdateSignals"

fun ResolutionState_value :: "ResolutionState \<Rightarrow> string" where
  "ResolutionState_value UNRESOLVED = ''unresolved''"
| "ResolutionState_value RESOLVED = ''resolved''"
| "ResolutionState_value SUPPRESSED = ''suppressed''"

definition ResolutionState_of :: "json \<Rightarrow> ResolutionState option" where
  "ResolutionState_of v =
     (if v = JStr ''unresolved'' then Some UNRESOLVED
      else if v = JStr ''resolved'' then Some RESOLVED
      else if v = JStr ''suppressed'' then Some SUPPRESSED
      else None)"

fun EpistemicStatus_value :: "EpistemicStatus \<Rightarrow> string" where
  "EpistemicStatus_value HYPOTHESIS = ''hypothesis''"
| "EpistemicStatus_value PROVISIONAL = ''provisional''"
| "EpistemicStatus_value CONFIRMED = ''confirmed''"

fun StakesLevel_value :: "StakesLevel \<Rightarrow> string" where
  "StakesLevel_value LOW = ''low''"
| "StakesLevel_value MEDIUM = ''medium''"
| "StakesLevel_value HIGH = ''high''"

definition StakesLevel_of :: "json \<Rightarrow> StakesLevel option" where
  "StakesLevel_of v =
     (if v = JStr ''low'' then Some LOW
      else if v = JStr ''medium'' then Some MEDIUM
      else if v = JStr ''high'' then Some HIGH
      else None)"

record SignalModifier =
  modifier_value :: real
  max_applications :: "int option"
  single_application :: bool
  force_confirmed :: bool

definition mk_modifier :: "real \<Rightarrow> int option \<Rightarrow> bool \<Rightarrow> bool \<Rightarrow> SignalModifier" where
  "mk_modifier v m s f =
     \<lparr>modifier_value = v, max_applications = m, single_application = s, force_confirmed = f\<rparr>"

fun SIGNAL_MODIFIERS :: "UpdateSignal \<Rightarrow> SignalModifier" where
  "SIGNAL_MODIFIERS REPEATED_OCCURRENCE = mk_modifier 0.05 (Some 3) False False"
| "SIGNAL_MODIFIERS CONSISTENT_RECALL = mk_modifier 0.04 (Some 3) False False"
| "SIGNAL_MODIFIERS USER_AFFIRMATION = mk_modifier 0.30 None True True"
| "SIGNAL_MODIFIERS IMPLICIT_USER_SIGNAL = mk_modifier 0.10 None False False"
| "SIGNAL_MODIFIERS SYSTEM_CROSS_VALIDATION = mk_modifier 0.08 None False False"
| "SIGNAL_MODIFIERS CONFLICT_DETECTED = mk_modifier (- 0.20) None False False"
| "SIGNAL_MODIFIERS CONTRADICTION_BY_USER = mk_modifier (- 0.35) None False False"
| "SIGNAL_MODIFIERS INCONSISTENCY_OVER_TIME = mk_modifier (- 0.10) None False False"
| "SIGNAL_MODIFIERS SYSTEM_NOISE_DETECTED = mk_modifier (- 0.08) None False False"

record multipliers =
  positive :: real
  negative :: real

fun RESOLUTION_MULTIPLIERS :: "ResolutionState \<Rightarrow> multipliers" where
  "RESOLUTION_MULTIPLIERS UNRESOLVED = \<lparr>positive = 0.5, negative = 1.0\<rparr>"
| "RESOLUTION_MULTIPLIERS RESOLVED = \<lparr>positive = 1.0, negative = 0.5\<rparr>"
| "RESOLUTION_MULTIPLIERS SUPPRESSED = \<lparr>positive = 0.0, negative = 0.0\<rparr>"

text \<open>\<^verbatim>\<open>EPISTEMIC_THRESHOLDS\<close> has the two keys the code reads.\<close>

definition EPISTEMIC_THRESHOLDS_CONFIRMED :: real where
  "EPISTEMIC_THRESHOLDS_CONFIRMED = 0.80"

definition EPISTEMIC_THRESHOLDS_PROVISIONAL :: real where
  "EPISTEMIC_THRESHOLDS_PROVISIONAL = 0.45"

fun MAX_CLARIFICATION_ATTEMPTS :: "StakesLevel \<Rightarrow> int" where
  "MAX_CLARIFICATION_ATTEMPTS LOW = 2"
| "MAX_CLARIFICATION_ATTEMPTS MEDIUM = 3"
| "MAX_CLARIFICATION_ATTEMPTS HIGH = 4"

text \<open>
  \<^verbatim>\<open>signal_history.get(signal, 0)\<close> for the typed history
  \<^verbatim>\<open>Dict[UpdateSignal, int]\<close> of \<^verbatim>\<open>calculate_confidence\<close>; counts are kept as reals
  so that every JSON number fits.
\<close>

definition times_applied_of :: "(UpdateSignal \<rightharpoonup> real) \<Rightarrow> UpdateSignal \<Rightarrow> real" where
  "times_applied_of signal_history signal =
     (case signal_history signal of None \<Rightarrow> 0 | Some n \<Rightarrow> n)"

text \<open>The skip tests of the loop body: the two \<^verbatim>\<open>continue\<close> statements.\<close>

definition signal_skipped :: "(UpdateSignal \<rightharpoonup> real) \<Rightarrow> UpdateSignal \<Rightarrow> bool" where
  "signal_skipped signal_history signal =
     (let modifier = SIGNAL_MODIFIERS signal;
          times_applied = times_applied_of signal_history signal
      in (case max_applications modifier of
            None \<Rightarrow> False
          | Some m \<Rightarrow> m \<noteq> 0 \<and> times_applied \<ge> real_of_int m)
         \<or> (single_application modifier \<and> times_applied > 0))"

text \<open>One iteration of \<^verbatim>\<open>for signal in signals\<close> in \<^verbatim>\<open>calculate_confidence\<close>.\<close>

definition apply_signal ::
  "multipliers \<Rightarrow> (UpdateSignal \<rightharpoonup> real) \<Rightarrow> real \<Rightarrow> UpdateSignal \<Rightarrow> real" where
  "apply_signal mults signal_history confidence signal =
     (if signal_skipped signal_history signal then confidence
      else
        let modifier = SIGNAL_MODIFIERS signal;
            v = modifier_value modifier;
            v' = (if v > 0 then v * positive mults else v * negative mults);
            confidence' = confidence + v'
        in if force_confirmed modifier \<and> signal = USER_AFFIRMATION
           then max confidence' EPISTEMIC_THRESHOLDS_CONFIRMED
           else confidence')"

fun signals_loop ::
  "multipliers \<Rightarrow> (UpdateSignal \<rightharpoonup> real) \<Rightarrow> real \<Rightarrow> UpdateSignal list \<Rightarrow> real" where
  "signals_loop mults signal_history confidence [] = confidence"
| "signals_loop mults signal_history confidence (signal # signals) =
     signals_loop mults signal_history
       (apply_signal mults signal_history confidence signal) signals"

definition calculate_confidence ::
  "real \<Rightarrow> UpdateSignal list \<Rightarrow> ResolutionState \<Rightarrow> (UpdateSignal \<rightharpoonup> real) \<Rightarrow> real" where
  "calculate_confidence current_confidence signals resolution_state signal_history =
     (let confidence =
            signals_loop (RESOLUTION_MULTIPLIERS resolution_state) signal_history
              current_confidence signals
      in max 0.0 (min 1.0 confidence))"

definition get_epistemic_status :: "real \<Rightarrow> EpistemicStatus" where
  "get_epistemic_status confidence =
     (if confidence \<ge> EPISTEMIC_THRESHOLDS_CONFIRMED then CONFIRMED
      else if confidence \<ge> EPISTEMIC_THRESHOLDS_PROVISIONAL then PROVISIONAL
      else HYPOTHESIS)"

definition should_consolidate :: "real \<Rightarrow> bool" where
  "should_consolidate confidence = (confidence > 0.7)"

definition check_clarification_limit :: "int \<Rightarrow> StakesLevel \<Rightarrow> bool" where
  "check_clarification_limit attempts stakes_level =
     (attempts \<ge> MAX_CLARIFICATION_ATTEMPTS stakes_level)"

text \<open>
  \<^verbatim>\<open>create_initial_entry\<close>; \<open>initial_confidence\<close> is the attribute of the
  \<^verbatim>\<open>ConfidenceUpdater\<close> object.
\<close>

definition create_initial_entry :: "real \<Rightarrow> string \<Rightarrow> string \<Rightarrow> StakesLevel \<Rightarrow> dict" where
  "create_initial_entry initial_confidence concept definition stakes_level =
     (let initial_status = get_epistemic_status initial_confidence
      in [(''concept'', JStr concept),
          (''definition'', JStr definition),
          (''epistemic_status'', JStr (EpistemicStatus_value initial_status)),
          (''confidence'', JFloat initial_confidence),
          (''resolution_state'', JStr (ResolutionState_value UNRESOLVED)),
          (''signal_history'', JObj []),
          (''clarification_attempts'', JInt 0),
          (''stakes_level'', JStr (StakesLevel_value stakes_level)),
          (''max_clarification_attempts'',
             JInt (MAX_CLARIFICATION_ATTEMPTS stakes_level))])"

text \<open>
  \<^verbatim>\<open>update_entry\<close> reads three fields of an untyped entry. The string keys of the
  stored history that name a signal are converted to enum members; other keys are
  dropped (\<^verbatim>\<open>except ValueError: pass\<close>).
\<close>

definition signal_history_enum :: "dict \<Rightarrow> (UpdateSignal \<rightharpoonup> json)" where
  "signal_history_enum signal_history =
     (\<lambda>sig. map_of signal_history (UpdateSignal_value sig))"

text \<open>
  \<^verbatim>\<open>x + k\<close> for an integer literal \<open>k\<close>, and the history loop
  \<^verbatim>\<open>signal_history[key] = signal_history.get(key, 0) + 1\<close>; adding to a value that
  is not a number raises \<^verbatim>\<open>TypeError\<close>.
\<close>

fun py_add_int :: "json \<Rightarrow> int \<Rightarrow> json option" where
  "py_add_int (JInt i) k = Some (JInt (i + k))"
| "py_add_int (JBool b) k = Some (JInt ((if b then 1 else 0) + k))"
| "py_add_int (JFloat r) k = Some (JFloat (r + real_of_int k))"
| "py_add_int _ k = None"

fun bump_history :: "dict \<Rightarrow> UpdateSignal list \<Rightarrow> error + dict" where
  "bump_history signal_history [] = Inr signal_history"
| "bump_history signal_history (signal # signals) =
     (let signal_key = UpdateSignal_value signal
      in case py_add_int (dict_get_default signal_history signal_key (JInt 0)) 1 of
           None \<Rightarrow> Inl TypeError
         | Some n \<Rightarrow> bump_history (dict_set signal_history signal_key n) signals)"

text \<open>
  \<^verbatim>\<open>calculate_confidence\<close> compares the count of a capped or single-application
  signal of the batch with a number, and the history loop adds one to the count of
  every signal of the batch, so a count of a batch signal that is not a number ends in
  \<^verbatim>\<open>TypeError\<close>; counts of other signals are never read. A confidence that is not
  a number fails in the final clamp at the latest.
\<close>

definition update_entry :: "real \<Rightarrow> dict \<Rightarrow> UpdateSignal list \<Rightarrow> error + dict" where
  "update_entry initial_confidence entry signals =
     (case ResolutionState_of (dict_get_default entry ''resolution_state'' (JStr ''unresolved'')) of
        None \<Rightarrow> Inl ValueError
      | Some resolution_state \<Rightarrow>
     (case dict_get_default entry ''signal_history'' (JObj []) of
        JObj signal_history \<Rightarrow>
          (case as_number (dict_get_default entry ''confidence'' (JFloat initial_confidence)) of
             None \<Rightarrow> Inl TypeError
           | Some current_confidence \<Rightarrow>
          if list_ex (\<lambda>sig. case signal_history_enum signal_history sig of
                               None \<Rightarrow> False | Some v \<Rightarrow> as_number v = None) signals
          then Inl TypeError
          else
            let typed_history =
                  (\<lambda>sig. case signal_history_enum signal_history sig of
                            None \<Rightarrow> None | Some v \<Rightarrow> as_number v);
                new_confidence =
                  calculate_confidence current_confidence signals resolution_state typed_history
            in (case bump_history signal_history signals of
                  Inl e \<Rightarrow> Inl e
                | Inr signal_history' \<Rightarrow>
                    let new_status = get_epistemic_status new_confidence;
                        entry1 = dict_set entry ''confidence'' (JFloat new_confidence);
                        entry2 = dict_set entry1 ''epistemic_status''
                                   (JStr (EpistemicStatus_value new_status));
                        entry3 = dict_set entry2 ''signal_history'' (JObj signal_history')
                    in if new_status = CONFIRMED \<and> resolution_state = UNRESOLVED
                       then Inr (dict_set entry3 ''resolution_state''
                                   (JStr (ResolutionState_value RESOLVED)))
                       else Inr entry3))
      | _ \<Rightarrow> Inl AttributeError))"

section \<open>Semantic validator (validation/semantic\_validator.py)\<close>

text \<open>
  Python's \<^verbatim>\<open>==\<close> on JSON values: numbers and booleans by value, lists item by
  item, dicts key by key whatever the order of insertion.
\<close>

fun py_eq :: "json \<Rightarrow> json \<Rightarrow> bool"
  and py_eq_list :: "json list \<Rightarrow> json list \<Rightarrow> bool"
  and py_eq_items :: "(string \<times> json) list \<Rightarrow> (string \<times> json) list \<Rightarrow> bool"
  and py_eq_member :: "json \<Rightarrow> string \<Rightarrow> (string \<times> json) list \<Rightarrow> bool"
where
  "py_eq (JArr xs) (JArr ys) = py_eq_list xs ys"
| "py_eq (JObj a) (JObj b) = (length a = length b \<and> py_eq_items a b)"
| "py_eq (JStr a) (JStr b) = (a = b)"
| "py_eq JNull JNull = True"
| "py_eq a b =
     (case (as_number a, as_number b) of (Some x, Some y) \<Rightarrow> x = y | _ \<Rightarrow> False)"
| "py_eq_list [] [] = True"
| "py_eq_list (x # xs) (y # ys) = (py_eq x y \<and> py_eq_list xs ys)"
| "py_eq_list _ _ = False"
| "py_eq_items [] b = True"
| "py_eq_items ((k, v) # a) b = (py_eq_member v k b \<and> py_eq_items a b)"
| "py_eq_member v k [] = False"
| "py_eq_member v k ((k', w) # b) = (if k = k' then py_eq v w else py_eq_member v k b)"

text \<open>
  \<^verbatim>\<open>x in c\<close> for arbitrary values: membership in a list, substring of a string (the
  left operand must be a string), key of a dict (the left operand must be hashable).
\<close>

fun py_in :: "json \<Rightarrow> json \<Rightarrow> error + bool" where
  "py_in x (JArr xs) = Inr (list_ex (py_eq x) xs)"
| "py_in x (JStr s) = (case x of JStr t \<Rightarrow> Inr (str_contains s t) | _ \<Rightarrow> Inl TypeError)"
| "py_in x (JObj d) =
     (if hashable x then Inr (case x of JStr k \<Rightarrow> dict_contains d k | _ \<Rightarrow> False)
      else Inl TypeError)"
| "py_in x _ = Inl TypeError"

text \<open>ASCII character classes and \<^verbatim>\<open>str.lower()\<close> on ASCII letters.\<close>

definition is_lower :: "char \<Rightarrow> bool" where
  "is_lower c = (let n = (of_char c :: nat) in 97 \<le> n \<and> n \<le> 122)"

definition is_digit :: "char \<Rightarrow> bool" where
  "is_digit c = (let n = (of_char c :: nat) in 48 \<le> n \<and> n \<le> 57)"

definition char_lower :: "char \<Rightarrow> char" where
  "char_lower c = (let n = (of_char c :: nat) in if 65 \<le> n \<and> n \<le> 90 then char_of (n + 32) else c)"

definition lower :: "string \<Rightarrow> string" where
  "lower s = map char_lower s"

definition SemanticValidator_EPISTEMIC_STATUSES :: "string list" where
  "SemanticValidator_EPISTEMIC_STATUSES = [''hypothesis'', ''provisional'', ''confirmed'']"

definition RESOLUTION_STATES :: "string list" where
  "RESOLUTION_STATES = [''unresolved'', ''resolved'', ''suppressed'']"

definition CONSOLIDATION_THRESHOLD :: real where
  "CONSOLIDATION_THRESHOLD = 0.7"

definition SEMANTIC_FORBIDDEN_FIELDS :: "string list" where
  "SEMANTIC_FORBIDDEN_FIELDS = [''promotion_level'', ''write_mode'', ''user_block'']"

definition validate_structure :: "dict \<Rightarrow> ValidationResult" where
  "validate_structure entry =
     (let result0 = add_info [Lit ''Phase 1: Structural validation''] create_result;
          result1 = check_required_fields entry
                      [''concept'', ''epistemic_status'', ''confidence'', ''derived_from'']
                      result0;
          result2 = (case map_of entry ''epistemic_status'' of
                       Some v \<Rightarrow> check_enum_value v SemanticValidator_EPISTEMIC_STATUSES
                                   ''epistemic_status'' result1
                     | None \<Rightarrow> result1);
          result3 = (case map_of entry ''resolution_state'' of
                       Some v \<Rightarrow> check_enum_value v RESOLUTION_STATES ''resolution_state'' result2
                     | None \<Rightarrow> result2)
      in case map_of entry ''derived_from'' of
           Some (JObj derived) \<Rightarrow>
             (if \<not> dict_contains derived ''episode_id''
              then add_error [Lit (quoted ''derived_from''), Lit '' missing '',
                              Lit (quoted ''episode_id'')] result3
              else result3)
         | Some _ \<Rightarrow> add_error [Lit (quoted ''derived_from''), Lit '' must be an object''] result3
         | None \<Rightarrow> result3)"

text \<open>
  \<^verbatim>\<open>_is_lowercase_snake_case\<close>: \<^verbatim>\<open>re.match\<close> of
  \<^verbatim>\<open>^[a-z][a-z0-9_]*[a-z0-9]$|^[a-z]$\<close>. The body is a lower-case letter, then
  letters, digits and underscores, the last of them not an underscore; \<^verbatim>\<open>$\<close> also
  matches before one final newline.
\<close>

definition snake_body :: "string \<Rightarrow> bool" where
  "snake_body s =
     (case s of
        [] \<Rightarrow> False
      | c # cs \<Rightarrow>
          is_lower c
          \<and> list_all (\<lambda>x. is_lower x \<or> is_digit x \<or> x = CHR ''_'') cs
          \<and> (case rev cs of [] \<Rightarrow> True | l # _ \<Rightarrow> is_lower l \<or> is_digit l))"

definition is_lowercase_snake_case :: "string \<Rightarrow> bool" where
  "is_lowercase_snake_case s =
     (snake_body s
      \<or> (case rev s of [] \<Rightarrow> False | c # r \<Rightarrow> c = CHR 0x0A \<and> snake_body (rev r)))"

definition certainty_words :: "string list" where
  "certainty_words = [''confirmed'', ''certain'', ''definite'', ''absolute'', ''proven'']"

definition validate_concept_format :: "dict \<Rightarrow> error + ValidationResult" where
  "validate_concept_format entry =
     (let result = add_info [Lit ''Phase 2: Concept format validation''] create_result;
          concept = dict_get entry ''concept''
      in if \<not> truthy concept then Inr result
         else case concept of
                JStr c \<Rightarrow>
                  (let result1 =
                         (if \<not> is_lowercase_snake_case c
                          then add_error [Lit ''Concept '', Lit (quoted c),
                                          Lit '' must be lowercase_snake_case format''] result
                          else result)
                   in Inr (if list_ex (\<lambda>word. str_contains (lower c) word) certainty_words
                           then add_warning
                                  [Lit ''Concept '', Lit (quoted c),
                                   Lit '' appears to encode certainty (should be in epistemic_status instead)'']
                                  result1
                           else result1))
              | _ \<Rightarrow> Inl TypeError)"

definition validate_confidence :: "dict \<Rightarrow> error + ValidationResult" where
  "validate_confidence entry =
     (let result = add_info [Lit ''Phase 3: Confidence validation''] create_result;
          confidence = dict_get entry ''confidence''
      in if confidence = JNull then Inr result
         else
           let result1 = check_range confidence 0.0 1.0 ''confidence'' result;
               epistemic_status = dict_get entry ''epistemic_status''
           in if truthy epistemic_status
              then (case as_number confidence of
                      None \<Rightarrow> Inl TypeError
                    | Some c \<Rightarrow>
                        let expected_status = get_epistemic_status c
                        in Inr (if epistemic_status \<noteq> JStr (EpistemicStatus_value expected_status)
                                then add_warning
                                       [Lit ''Confidence '', Val confidence, Lit '' suggests '',
                                        Lit (quoted (EpistemicStatus_value expected_status)),
                                        Lit '' but epistemic_status is '', Lit quote,
                                        Val epistemic_status, Lit quote] result1
                                else result1))
              else Inr result1)"

text \<open>
  \<^verbatim>\<open>detect_conflict\<close> of confidence\_updater.py: the concept of the first existing
  entry that conflicts, or \<^verbatim>\<open>None\<close>. An existing entry that is not a dict has no
  \<^verbatim>\<open>get\<close>.
\<close>

fun detect_conflict :: "dict \<Rightarrow> json list \<Rightarrow> error + json option" where
  "detect_conflict new_entry [] = Inr None"
| "detect_conflict new_entry (existing # existing_entries) =
     (case existing of
        JObj ex \<Rightarrow>
          (let new_concept = dict_get_default new_entry ''concept'' (JStr '''');
               existing_concept = dict_get_default ex ''concept'' (JStr '''')
           in if py_eq existing_concept new_concept
                 \<and> \<not> py_eq (dict_get ex ''definition'') (dict_get new_entry ''definition'')
              then Inr (Some existing_concept)
              else bindE (py_in existing_concept
                            (dict_get_default new_entry ''conflicts_with'' (JArr [])))
                     (\<lambda>listed. if listed then Inr (Some existing_concept)
                                else detect_conflict new_entry existing_entries))
      | _ \<Rightarrow> Inl AttributeError)"

definition validate_conflicts :: "dict \<Rightarrow> json list \<Rightarrow> error + ValidationResult" where
  "validate_conflicts entry existing_entries =
     (let result = add_info [Lit ''Phase 4: Conflict detection''] create_result
      in bindE (detect_conflict entry existing_entries)
           (\<lambda>found.
              case found of
                None \<Rightarrow> Inr result
              | Some conflicting_concept \<Rightarrow>
                  if \<not> truthy conflicting_concept then Inr result
                  else
                    let result1 = add_warning
                                    [Lit ''Conflict detected with existing concept: '', Lit quote,
                                     Val conflicting_concept, Lit quote] result;
                        result2 = result1\<lparr>result_context :=
                                    dict_set (dict_set (result_context result1)
                                                ''conflict_detected'' (JBool True))
                                      ''conflicting_concept'' conflicting_concept\<rparr>
                    in bindE (py_in conflicting_concept
                                (dict_get_default entry ''conflicts_with'' (JArr [])))
                         (\<lambda>listed.
                            Inr (if \<not> listed
                                 then add_info [Lit ''Consider adding '', Lit quote,
                                                Val conflicting_concept, Lit quote,
                                                Lit '' to conflicts_with field''] result2
                                 else result2))))"

definition validate_forbidden_fields :: "dict \<Rightarrow> ValidationResult" where
  "validate_forbidden_fields entry =
     scan_for_forbidden_fields entry SEMANTIC_FORBIDDEN_FIELDS
       (add_info [Lit ''Phase 5: Forbidden fields check''] create_result)"

text \<open>
  \<^verbatim>\<open>SemanticValidator.validate\<close>; \<open>existing_entries\<close> is \<open>None\<close> when the argument
  is left out. The conflict phase runs only for a truthy argument, which is then
  iterated.
\<close>

definition semantic_validate :: "dict \<Rightarrow> json option \<Rightarrow> error + ValidationResult" where
  "semantic_validate entry existing_entries =
     (let result1 = merge create_result (validate_structure entry)
      in bindE (validate_concept_format entry)
           (\<lambda>concept_result.
              let result2 = merge result1 concept_result
              in bindE (validate_confidence entry)
                   (\<lambda>confidence_result.
                      let result3 = merge result2 confidence_result
                      in bindE (case existing_entries of
                                  None \<Rightarrow> Inr result3
                                | Some ee \<Rightarrow>
                                    if truthy ee
                                    then bindE (py_iter ee)
                                           (\<lambda>es. bindE (validate_conflicts entry es)
                                                    (\<lambda>conflict_result.
                                                       Inr (merge result3 conflict_result)))
                                    else Inr result3)
                           (\<lambda>result4. Inr (merge result4 (validate_forbidden_fields entry))))))"

definition validate_for_consolidation :: "dict \<Rightarrow> error + bool" where
  "validate_for_consolidation entry =
     (case as_number (dict_get_default entry ''confidence'' (JFloat 0.0)) of
        None \<Rightarrow> Inl TypeError
      | Some confidence \<Rightarrow>
          if confidence \<le> CONSOLIDATION_THRESHOLD then Inr False
          else bindE (semantic_validate entry None)
                 (\<lambda>result. if \<not> valid result then Inr False else Inr True))"

section \<open>Sensory validator (validation/sensory\_validator.py)\<close>

definition DATA_TYPES :: "string list" where
  "DATA_TYPES = [''text'', ''audio'', ''visual'', ''multimodal'']"

definition CAPTURE_CHANNELS :: "string list" where
  "CAPTURE_CHANNELS = [''user_input'', ''system_ui'', ''external_sensor'']"

definition ALLOWED_FEATURES :: "string list" where
  "ALLOWED_FEATURES = [''pitch'', ''volume'', ''tempo'', ''pause_length'', ''tone_descriptor'']"

definition INTERPRETIVE_KEYWORDS :: "string list" where
  "INTERPRETIVE_KEYWORDS =
     [''emotion'', ''feeling'', ''mood'', ''intent'', ''intention'', ''meaning'',
      ''angry'', ''happy'', ''sad'', ''excited'', ''frustrated'', ''confused'',
      ''wants'', ''desires'', ''believes'', ''thinks'', ''feels'',
      ''aggressive'', ''friendly'', ''hostile'', ''warm'', ''cold'',
      ''sarcastic'', ''sincere'', ''lying'', ''honest'']"

definition SENSORY_FORBIDDEN_FIELDS :: "string list" where
  "SENSORY_FORBIDDEN_FIELDS =
     [''primary_emotion'', ''emotional_label'', ''intent'', ''meaning'',
      ''description_with_judgement'',
      ''eva_matrix'', ''qualia'', ''reflex'', ''RI'', ''RIM'',
      ''GKS_trigger'', ''recall_priority'', ''awareness_hook'', ''promotion_hint'']"

definition sensory_validate_structure :: "dict \<Rightarrow> ValidationResult" where
  "sensory_validate_structure entry =
     (let result0 = add_info [Lit ''Phase 1: Structural validation''] create_result;
          result1 = check_required_fields entry
                      [''sensory_id'', ''session_id'', ''episode_ref'', ''timestamp'',
                       ''data_type'', ''data_source'', ''sensory_payload'']
                      result0;
          result2 = (case map_of entry ''data_type'' of
                       Some v \<Rightarrow> check_enum_value v DATA_TYPES ''data_type'' result1
                     | None \<Rightarrow> result1);
          result3 =
            (case map_of entry ''data_source'' of
               Some (JObj data_source) \<Rightarrow>
                 (let r1 = (if \<not> dict_contains data_source ''source_name''
                            then add_error [Lit (quoted ''data_source''), Lit '' missing '',
                                            Lit (quoted ''source_name'')] result2
                            else result2);
                      r2 = (if \<not> dict_contains data_source ''capture_channel''
                            then add_error [Lit (quoted ''data_source''), Lit '' missing '',
                                            Lit (quoted ''capture_channel'')] r1
                            else r1)
                  in case map_of data_source ''capture_channel'' of
                       Some v \<Rightarrow> check_enum_value v CAPTURE_CHANNELS
                                   ''data_source.capture_channel'' r2
                     | None \<Rightarrow> r2)
             | Some _ \<Rightarrow>
                 add_error [Lit (quoted ''data_source''), Lit '' must be an object''] result2
             | None \<Rightarrow> result2)
      in case map_of entry ''sensory_payload'' of
           None \<Rightarrow> add_error [Lit ''Missing '', Lit (quoted ''sensory_payload'')] result3
         | Some (JObj payload) \<Rightarrow> result3
         | Some _ \<Rightarrow>
             add_error [Lit (quoted ''sensory_payload''), Lit '' must be an object''] result3)"

definition detect_interpretive_keywords :: "string \<Rightarrow> string list" where
  "detect_interpretive_keywords text =
     filter (\<lambda>keyword. str_contains (lower text) keyword) INTERPRETIVE_KEYWORDS"

definition validate_no_interpretation :: "dict \<Rightarrow> error + ValidationResult" where
  "validate_no_interpretation entry =
     (let result = add_info [Lit ''Phase 2: Interpretation detection (CRITICAL)''] create_result;
          sensory_payload = dict_get_default entry ''sensory_payload'' (JObj [])
      in bindE (py_get sensory_payload ''raw_content'' (JStr ''''))
           (\<lambda>raw_content.
              let result1 =
                    (case raw_content of
                       JStr text \<Rightarrow>
                         (if text \<noteq> [] \<and> detect_interpretive_keywords text \<noteq> []
                          then add_error [Lit ''Interpretive language detected in raw_content: '',
                                          StrList (detect_interpretive_keywords text)] result
                          else result)
                     | _ \<Rightarrow> result)
              in bindE (py_get sensory_payload ''feature_snapshot'' (JObj []))
                   (\<lambda>feature_snapshot.
                      Inr (case feature_snapshot of
                             JObj fs \<Rightarrow>
                               (if extra_keys fs ALLOWED_FEATURES \<noteq> []
                                then add_error
                                       [Lit ''Invalid features in feature_snapshot: '',
                                        KeySet (extra_keys fs ALLOWED_FEATURES),
                                        Lit ''. Only measurable features allowed: '',
                                        StrList ALLOWED_FEATURES] result1
                                else result1)
                           | _ \<Rightarrow> result1))))"

text \<open>\<^verbatim>\<open>key in x\<close> alone, for a string key and an arbitrary value.\<close>

fun py_has_key :: "json \<Rightarrow> string \<Rightarrow> error + bool" where
  "py_has_key (JObj d) k = Inr (dict_contains d k)"
| "py_has_key (JStr s) k = Inr (str_contains s k)"
| "py_has_key (JArr xs) k = Inr (JStr k \<in> set xs)"
| "py_has_key _ k = Inl TypeError"

text \<open>\<^verbatim>\<open>any(f in x for f in fs)\<close>: stops at the first member found.\<close>

fun any_has_key :: "json \<Rightarrow> string list \<Rightarrow> error + bool" where
  "any_has_key x [] = Inr False"
| "any_has_key x (f # fs) =
     bindE (py_has_key x f) (\<lambda>b. if b then Inr True else any_has_key x fs)"

definition validate_data_type :: "dict \<Rightarrow> error + ValidationResult" where
  "validate_data_type entry =
     (let result = add_info [Lit ''Phase 3: Data type validation''] create_result;
          data_type = dict_get entry ''data_type'';
          sensory_payload = dict_get_default entry ''sensory_payload'' (JObj [])
      in if \<not> truthy data_type then Inr result
         else if data_type = JStr ''audio''
         then bindE (py_get sensory_payload ''feature_snapshot'' (JObj []))
                (\<lambda>feature_snapshot.
                   bindE (any_has_key feature_snapshot [''pitch'', ''volume'', ''tempo''])
                     (\<lambda>has_audio_features.
                        Inr (if truthy feature_snapshot \<and> \<not> has_audio_features
                             then add_warning
                                    [Lit ''data_type is '', Lit (quoted ''audio''),
                                     Lit '' but no audio features (pitch/volume/tempo) found'']
                                    result
                             else result)))
         else Inr result)"

definition sensory_validate_forbidden_fields :: "dict \<Rightarrow> ValidationResult" where
  "sensory_validate_forbidden_fields entry =
     scan_for_forbidden_fields entry SENSORY_FORBIDDEN_FIELDS
       (add_info [Lit ''Phase 4: Forbidden fields check''] create_result)"

definition sensory_validate :: "dict \<Rightarrow> error + ValidationResult" where
  "sensory_validate entry =
     (let result1 = merge create_result (sensory_validate_structure entry)
      in bindE (validate_no_interpretation entry)
           (\<lambda>interpretation_result.
              bindE (validate_data_type entry)
                (\<lambda>data_type_result.
                   Inr (merge (merge (merge result1 interpretation_result) data_type_result)
                          (sensory_validate_forbidden_fields entry)))))"

section \<open>Files (MSP.py, utilities)\<close>

text \<open>
  The store is a tree of directories and JSON files below \<^verbatim>\<open>base_path\<close>. A path is
  the list of its components below \<^verbatim>\<open>base_path\<close>, the empty path \<^verbatim>\<open>base_path\<close>
  itself. A file holds a JSON document, or text that does not parse (\<open>None\<close>).
  The failures modelled are those the tree decides (a file where a directory is
  needed and the reverse, a destination that exists); a failing device is not
  modelled. Console output and the validators' audit log are left out.
\<close>

type_synonym path = "string list"

datatype node = Dir | File "json option"

type_synonym filesystem = "path \<Rightarrow> node option"

definition node_at :: "filesystem \<Rightarrow> path \<Rightarrow> node option" where
  "node_at tree p = (if p = [] then Some Dir else tree p)"

definition path_exists :: "filesystem \<Rightarrow> path \<Rightarrow> bool" where
  "path_exists tree p = (node_at tree p \<noteq> None)"

definition is_file :: "node option \<Rightarrow> bool" where
  "is_file n = (case n of Some (File c) \<Rightarrow> True | _ \<Rightarrow> False)"

text \<open>\<open>below p q\<close>: \<open>q\<close> is \<open>p\<close> or lies under \<open>p\<close>.\<close>

definition below :: "path \<Rightarrow> path \<Rightarrow> bool" where
  "below p q = (take (length p) q = p)"

text \<open>\<^verbatim>\<open>ensure_dir\<close>: \<^verbatim>\<open>p.mkdir(parents=True, exist_ok=True)\<close>.\<close>

definition ensure_dir :: "filesystem \<Rightarrow> path \<Rightarrow> error + filesystem" where
  "ensure_dir tree p =
     (if list_ex (\<lambda>n. is_file (node_at tree (take n p))) [0..<Suc (length p)]
      then Inl OSError
      else Inr (\<lambda>q. if q \<noteq> [] \<and> below q p \<and> tree q = None then Some Dir else tree q))"

text \<open>\<^verbatim>\<open>load_json\<close>: the empty dict for a missing file and for text that does not parse.\<close>

definition load_json :: "filesystem \<Rightarrow> path \<Rightarrow> error + json" where
  "load_json tree p =
     (case node_at tree p of
        None \<Rightarrow> Inr (JObj [])
      | Some Dir \<Rightarrow> Inl OSError
      | Some (File None) \<Rightarrow> Inr (JObj [])
      | Some (File (Some j)) \<Rightarrow> Inr j)"

text \<open>
  \<^verbatim>\<open>save_json\<close> of the file \<open>stem.json\<close> in directory \<open>dir\<close>: the document is
  written to \<open>stem.tmp\<close>, which then replaces the file. What was done before a
  failure stays done.
\<close>

definition save_json :: "filesystem \<Rightarrow> path \<Rightarrow> string \<Rightarrow> json \<Rightarrow> (error + unit) \<times> filesystem" where
  "save_json tree dir stem data =
     (let file_path = dir @ [stem @ ''.json''];
          temp_path = dir @ [stem @ ''.tmp'']
      in case ensure_dir tree dir of
           Inl e \<Rightarrow> (Inl e, tree)
         | Inr tree1 \<Rightarrow>
             if node_at tree1 temp_path = Some Dir then (Inl OSError, tree1)
             else
               let tree2 = tree1(temp_path \<mapsto> File (Some data))
               in if node_at tree2 file_path = Some Dir then (Inl OSError, tree2)
                  else (Inr (), tree2(temp_path := None, file_path \<mapsto> File (Some data))))"

text \<open>\<^verbatim>\<open>shutil.copytree(src, dst)\<close> and \<^verbatim>\<open>shutil.rmtree(p)\<close>.\<close>

definition copytree :: "filesystem \<Rightarrow> path \<Rightarrow> path \<Rightarrow> error + filesystem" where
  "copytree tree src dst =
     (if node_at tree src \<noteq> Some Dir then Inl OSError
      else if node_at tree dst \<noteq> None then Inl OSError
      else Inr (\<lambda>q. if below dst q then node_at tree (src @ drop (length dst) q) else tree q))"

definition rmtree :: "filesystem \<Rightarrow> path \<Rightarrow> error + filesystem" where
  "rmtree tree p =
     (if node_at tree p \<noteq> Some Dir then Inl OSError
      else Inr (\<lambda>q. if below p q then None else tree q))"

text \<open>
  Subscript \<^verbatim>\<open>x[key]\<close> with a string key, and the test \<^verbatim>\<open>key not in x\<close> before
  it, for an arbitrary value.
\<close>

fun py_subscript :: "json \<Rightarrow> string \<Rightarrow> error + json" where
  "py_subscript (JObj d) k = (case map_of d k of None \<Rightarrow> Inl KeyError | Some v \<Rightarrow> Inr v)"
| "py_subscript _ k = Inl TypeError"

text \<open>Zero-padded decimals \<^verbatim>\<open>f"{i:02d}"\<close>, \<^verbatim>\<open>f"{i:03d}"\<close> and \<^verbatim>\<open>str(i)\<close>.\<close>

definition zero_pad :: "nat \<Rightarrow> string \<Rightarrow> string" where
  "zero_pad width s = replicate (width - length s) (CHR ''0'') @ s"

definition format_0d :: "nat \<Rightarrow> int \<Rightarrow> string" where
  "format_0d width i =
     (if i < 0 then ''-'' @ zero_pad (width - 1) (show_nat (nat (- i)))
      else zero_pad width (show_nat (nat i)))"

definition show_int :: "int \<Rightarrow> string" where
  "show_int i = format_0d 0 i"

text \<open>
  What an operation takes from outside the program: the clock (\<open>now_iso k\<close> is the
  result of \<^verbatim>\<open>now_iso()\<close> at the \<open>k\<close>-th place where the operation calls it,
  \<open>strftime_now\<close> the
  stamp \<^verbatim>\<open>datetime.now().strftime("%Y%m%d_%H%M%S")\<close>), \<^verbatim>\<open>uuid.uuid4().hex\<close>, and
  the text Python gives a float, a list, a dict, a set or a type name in an f-string.
\<close>

record env =
  now_iso :: "nat \<Rightarrow> string"
  strftime_now :: string
  uuid_hex :: string
  str_other :: "frag \<Rightarrow> string"

definition py_str :: "env \<Rightarrow> json \<Rightarrow> string" where
  "py_str ev v =
     (case v of
        JStr s \<Rightarrow> s
      | JInt i \<Rightarrow> show_int i
      | JNull \<Rightarrow> ''None''
      | JBool b \<Rightarrow> (if b then ''True'' else ''False'')
      | _ \<Rightarrow> str_other ev (Val v))"



section \<open>The MSP engine (MSP.py)\<close>

text \<open>
  The attributes of an \<^verbatim>\<open>MSP\<close> object that the operations below read or write, and
  the file tree. A validator attribute is \<open>True\<close> when the object holds a validator
  and \<open>False\<close> when it holds \<^verbatim>\<open>None\<close>. The confidence updater of an \<^verbatim>\<open>MSP\<close>
  object is always built as \<^verbatim>\<open>ConfidenceUpdater()\<close>, with the default initial
  confidence.
\<close>

record msp =
  tree :: filesystem
  instance_id :: "string option"
  session_id :: "string option"
  session_episode_count :: int
  validation_mode :: string
  episodic_validator :: bool
  semantic_validator :: bool
  sensory_validator :: bool
  confidence_updater :: bool


text \<open>An operation returns a value or raises, and leaves a state in both cases.\<close>

type_synonym 'a outcome = "(error + 'a) \<times> msp"

definition returnS :: "'a \<Rightarrow> msp \<Rightarrow> 'a outcome" where
  "returnS x s = (Inr x, s)"

definition raiseS :: "error \<Rightarrow> msp \<Rightarrow> 'a outcome" where
  "raiseS e s = (Inl e, s)"

definition bindS :: "(msp \<Rightarrow> 'a outcome) \<Rightarrow> ('a \<Rightarrow> msp \<Rightarrow> 'b outcome) \<Rightarrow> msp \<Rightarrow> 'b outcome" where
  "bindS m f s = (case m s of (Inl e, s') \<Rightarrow> (Inl e, s') | (Inr x, s') \<Rightarrow> f x s')"

definition liftE :: "error + 'a \<Rightarrow> msp \<Rightarrow> 'a outcome" where
  "liftE r s = (r, s)"

definition load_jsonS :: "path \<Rightarrow> msp \<Rightarrow> json outcome" where
  "load_jsonS p s = (load_json (tree s) p, s)"

definition save_jsonS :: "path \<Rightarrow> string \<Rightarrow> json \<Rightarrow> msp \<Rightarrow> unit outcome" where
  "save_jsonS dir stem data s =
     (case save_json (tree s) dir stem data of (r, t) \<Rightarrow> (r, s\<lparr>tree := t\<rparr>))"

definition episodic_dir :: path where "episodic_dir = [''01_Episodic_memory'']"
definition semantic_dir :: path where "semantic_dir = [''02_Semantic_memory'']"
definition sensory_dir :: path where "sensory_dir = [''03_Sensory_memory'']"
definition session_dir :: path where "session_dir = [''04_Session_Memory'']"
definition user_block_dir :: path where "user_block_dir = [''07_User_block'']"
definition buffer_dir :: path where "buffer_dir = [''Buffer'']"
definition version_file :: path where "version_file = [''version.json'']"

definition get_current_version :: "filesystem \<Rightarrow> error + json" where
  "get_current_version t =
     (if path_exists t version_file
      then bindE (load_json t version_file) (\<lambda>data. py_get data ''version'' (JInt 1))
      else Inr (JInt 1))"

definition increment_version :: "env \<Rightarrow> nat \<Rightarrow> msp \<Rightarrow> unit outcome" where
  "increment_version ev k =
     bindS (\<lambda>s. (get_current_version (tree s), s))
       (\<lambda>current.
          case py_add_int current 1 of
            None \<Rightarrow> raiseS TypeError
          | Some next \<Rightarrow>
              save_jsonS [] ''version''
                (JObj [(''version'', next), (''updated_at'', JStr (now_iso ev k))]))"

definition get_instance_path :: "msp \<Rightarrow> error + path" where
  "get_instance_path s =
     (case instance_id s of
        None \<Rightarrow> Inl (RuntimeError ''No active instance'')
      | Some i \<Rightarrow> Inr (buffer_dir @ [''instance_'' @ i]))"

text \<open>
  \<^verbatim>\<open>start_session\<close>. Without an id the session count of the instance metadata is
  incremented and stored; \<^verbatim>\<open>f"S{session_count:02d}"\<close> takes an \<^verbatim>\<open>int\<close> only.
\<close>

definition start_session :: "string option \<Rightarrow> msp \<Rightarrow> string outcome" where
  "start_session requested s =
     (case instance_id s of
        None \<Rightarrow> (Inl (RuntimeError ''Must create_instance() first''), s)
      | Some i \<Rightarrow>
          bindS (\<lambda>s. case requested of
                        Some sid \<Rightarrow> returnS sid s
                      | None \<Rightarrow>
                          bindS (load_jsonS (buffer_dir @ [''instance_'' @ i, ''metadata.json'']))
                            (\<lambda>metadata.
                               bindS (liftE (py_get metadata ''session_count'' (JInt 0)))
                                 (\<lambda>c. case py_add_int c 1 of
                                         Some (JInt session_count) \<Rightarrow>
                                           (case metadata of
                                              JObj md \<Rightarrow>
                                                bindS (save_jsonS (buffer_dir @ [''instance_'' @ i])
                                                         ''metadata''
                                                         (JObj (dict_set md ''session_count''
                                                                  (JInt session_count))))
                                                  (\<lambda>_. returnS (''S'' @ format_0d 2 session_count))
                                            | _ \<Rightarrow> raiseS TypeError)
                                       | Some _ \<Rightarrow> raiseS ValueError
                                       | None \<Rightarrow> raiseS TypeError)) s)
            (\<lambda>sid s. (Inr sid, s\<lparr>session_id := Some sid, session_episode_count := 0\<rparr>)) s)"

text \<open>
  \<^verbatim>\<open>_apply_ri_filter\<close>; \<open>now\<close> is the value of \<^verbatim>\<open>now_iso()\<close>, the default of the
  timestamp.
\<close>

definition apply_ri_filter :: "string \<Rightarrow> dict \<Rightarrow> string \<Rightarrow> dict" where
  "apply_ri_filter now episode ri_level =
     (if ri_level = ''L1''
      then [(''episode_id'', dict_get episode ''episode_id''),
            (''timestamp'', dict_get_default episode ''timestamp'' (JStr now)),
            (''emotive_snapshot'', dict_get_default episode ''emotive_snapshot'' (JObj []))]
      else if ri_level = ''L2''
      then [(''episode_id'', dict_get episode ''episode_id''),
            (''timestamp'', dict_get_default episode ''timestamp'' (JStr now)),
            (''summary'', dict_get_default episode ''summary'' (JStr '''')),
            (''emotive_snapshot'', dict_get_default episode ''emotive_snapshot'' (JObj []))]
      else episode)"

text \<open>
  Appending a record to the list under \<open>key\<close> of a buffer document that was loaded
  from a file: a document without the key is replaced by a fresh one first.
\<close>

definition append_to_buffer :: "json \<Rightarrow> string \<Rightarrow> dict \<Rightarrow> json \<Rightarrow> error + json" where
  "append_to_buffer buffer_data key fresh item =
     bindE (py_has_key buffer_data key)
       (\<lambda>has.
          let doc = (if \<not> has then JObj fresh else buffer_data)
          in bindE (py_subscript doc key)
               (\<lambda>l. case (l, doc) of
                       (JArr xs, JObj d) \<Rightarrow> Inr (JObj (dict_set d key (JArr (xs @ [item]))))
                     | (JArr xs, _) \<Rightarrow> Inl TypeError
                     | _ \<Rightarrow> Inl AttributeError))"

text \<open>Load the buffer file \<open>stem.json\<close> of \<open>dir\<close>, append the record, save the file.\<close>

definition append_recordS ::
  "path \<Rightarrow> string \<Rightarrow> string \<Rightarrow> dict \<Rightarrow> json \<Rightarrow> msp \<Rightarrow> unit outcome" where
  "append_recordS dir stem key fresh item =
     bindS (load_jsonS (dir @ [stem @ ''.json'']))
       (\<lambda>buffer_data.
          bindS (liftE (append_to_buffer buffer_data key fresh item))
            (\<lambda>buffer_data1. save_jsonS dir stem buffer_data1))"

text \<open>
  The header of a fresh buffer document, and the record \<^verbatim>\<open>write_episode\<close> stores:
  the episode with its id, projected to the RI level, with \<^verbatim>\<open>msp_metadata\<close>.
\<close>

definition fresh_buffer :: "env \<Rightarrow> msp \<Rightarrow> string \<Rightarrow> string \<Rightarrow> dict" where
  "fresh_buffer ev s sid key =
     [(''system'', JStr ''EVA''),
      (''instance_id'', (case instance_id s of None \<Rightarrow> JNull | Some i \<Rightarrow> JStr i)),
      (''session_id'', JStr sid),
      (''timestamp'', JStr (now_iso ev 2)),
      (key, JArr [])]"

definition episode_id_of :: "env \<Rightarrow> msp \<Rightarrow> string \<Rightarrow> dict \<Rightarrow> json" where
  "episode_id_of ev s sid episode_data =
     (let given_id = dict_get episode_data ''episode_id''
      in if given_id = JNull
         then JStr (''ep_'' @ sid @ ''_'' @ format_0d 3 (session_episode_count s + 1)
                    @ ''_'' @ take 6 (uuid_hex ev))
         else given_id)"

definition stamped_episode :: "env \<Rightarrow> msp \<Rightarrow> string \<Rightarrow> dict \<Rightarrow> string \<Rightarrow> dict" where
  "stamped_episode ev s sid episode_data ri_level =
     (let episode_data1 =
            (if dict_get episode_data ''episode_id'' = JNull
             then dict_set episode_data ''episode_id'' (episode_id_of ev s sid episode_data)
             else episode_data);
          filtered_episode = apply_ri_filter (now_iso ev 0) episode_data1 ri_level;
          metadata =
            [(''written_by'', JStr ''MSP''),
             (''instance_id'', (case instance_id s of None \<Rightarrow> JNull | Some i \<Rightarrow> JStr i)),
             (''session_id'', JStr sid),
             (''ri_level'', JStr ri_level),
             (''written_at'', JStr (now_iso ev 1))];
          metadata1 =
            (case map_of episode_data1 ''pulse_snapshot'' of
               Some p \<Rightarrow> dict_set metadata ''pulse_snapshot'' p
             | None \<Rightarrow> metadata)
      in dict_set filtered_episode ''msp_metadata'' (JObj metadata1))"

text \<open>
  The validation checkpoint of \<^verbatim>\<open>write_episode\<close>: an invalid result raises in strict
  mode; an exception inside the validator is reported and the write goes on.
\<close>

definition episode_checkpoint :: "msp \<Rightarrow> dict \<Rightarrow> string \<Rightarrow> error + unit" where
  "episode_checkpoint s episode_data ri_level =
     (if validation_mode s \<noteq> ''off'' \<and> episodic_validator s
      then (case episodic_validate episode_data ri_level of
              Inl e \<Rightarrow> Inr ()
            | Inr result \<Rightarrow>
                if \<not> valid result \<and> validation_mode s = ''strict''
                then Inl (MSPValidationError (errors result))
                else Inr ())
      else Inr ())"

definition write_episode :: "env \<Rightarrow> dict \<Rightarrow> string \<Rightarrow> msp \<Rightarrow> json outcome" where
  "write_episode ev episode_data ri_level s =
     (case session_id s of
        None \<Rightarrow> (Inl (RuntimeError ''Must start_session() first''), s)
      | Some sid \<Rightarrow>
          if session_episode_count s \<ge> 30
          then (Inl (RuntimeError (''Session '' @ sid
                       @ '' reached max 30 episodes. Call end_session() first.'')), s)
          else
            case episode_checkpoint s episode_data ri_level of
              Inl e \<Rightarrow> (Inl e, s)
            | Inr _ \<Rightarrow>
                bindS (liftE (get_instance_path s))
                  (\<lambda>instance_path.
                     bindS (append_recordS (instance_path @ [''01_Episodic_memory''])
                              ''Episodic_memory'' ''episodes''
                              (fresh_buffer ev s sid ''episodes'')
                              (JObj (stamped_episode ev s sid episode_data ri_level)))
                       (\<lambda>_ s1.
                          (Inr (episode_id_of ev s sid episode_data),
                           s1\<lparr>session_episode_count := session_episode_count s1 + 1\<rparr>))) s)"










definition end_session :: "env \<Rightarrow> msp \<Rightarrow> dict outcome" where
  "end_session ev s =
     (case session_id s of
        None \<Rightarrow> (Inl (RuntimeError ''No active session''), s)
      | Some sid \<Rightarrow>
          bindS (liftE (get_instance_path s))
            (\<lambda>instance_path.
               bindS (load_jsonS (instance_path @ [''01_Episodic_memory'',
                                                     ''Episodic_memory.json'']))
                 (\<lambda>buffer_data.
                    bindS (load_jsonS (instance_path @ [''02_Semantic_memory'',
                                                          ''Semantic_memory.json'']))
                      (\<lambda>semantic_data.
                         bindS (liftE (py_get buffer_data ''episodes'' (JArr [])))
                           (\<lambda>episodes.
                              bindS (liftE (py_get semantic_data ''entries'' (JArr [])))
                                (\<lambda>semantic_updates.
                                   bindS (save_jsonS session_dir (''Session_memory_'' @ sid)
                                            (JObj [(''session_id'', JStr sid),
                                                   (''instance_id'',
                                                      (case instance_id s of
                                                         None \<Rightarrow> JNull | Some i \<Rightarrow> JStr i)),
                                                   (''created_at'', JStr (now_iso ev 0)),
                                                   (''episode_count'',
                                                      JInt (session_episode_count s)),
                                                   (''episodes'', episodes),
                                                   (''semantic_updates'', semantic_updates)]))
                                     (\<lambda>_ s1.
                                        (Inr [(''session_id'', JStr sid),
                                              (''episode_count'', JInt (session_episode_count s)),
                                              (''status'', JStr ''ended'')],
                                         s1\<lparr>session_id := None,
                                            session_episode_count := 0\<rparr>))))))) s)"

subsection \<open>Consolidation\<close>

definition wrapS :: "(error \<Rightarrow> error) \<Rightarrow> (msp \<Rightarrow> 'a outcome) \<Rightarrow> msp \<Rightarrow> 'a outcome" where
  "wrapS f m s = (case m s of (Inl e, s') \<Rightarrow> (Inl (f e), s') | (Inr x, s') \<Rightarrow> (Inr x, s'))"

definition ensure_dirS :: "path \<Rightarrow> msp \<Rightarrow> unit outcome" where
  "ensure_dirS p s =
     (case ensure_dir (tree s) p of Inl e \<Rightarrow> (Inl e, s) | Inr t \<Rightarrow> (Inr (), s\<lparr>tree := t\<rparr>))"

definition dirs_to_backup :: "string list" where
  "dirs_to_backup =
     [''01_Episodic_memory'', ''02_Semantic_memory'', ''03_Sensory_memory'', ''07_User_block'']"

text \<open>The copy loop of \<^verbatim>\<open>_create_origin_backup\<close>; a directory copied stays copied.\<close>

fun backup_dirs :: "path \<Rightarrow> string list \<Rightarrow> msp \<Rightarrow> unit outcome" where
  "backup_dirs backup_root [] s = (Inr (), s)"
| "backup_dirs backup_root (d # ds) s =
     (if path_exists (tree s) [d]
      then (case copytree (tree s) [d] (backup_root @ [d]) of
              Inl e \<Rightarrow> (Inl e, s)
            | Inr t \<Rightarrow> backup_dirs backup_root ds (s\<lparr>tree := t\<rparr>))
      else backup_dirs backup_root ds s)"

text \<open>
  \<^verbatim>\<open>_create_origin_backup\<close>. Reading the version and creating the backup root are
  outside the \<^verbatim>\<open>try\<close>; what is raised inside it is wrapped in \<^verbatim>\<open>MSPBackupError\<close>.
\<close>

definition create_origin_backup :: "env \<Rightarrow> msp \<Rightarrow> path outcome" where
  "create_origin_backup ev =
     bindS (\<lambda>s. (get_current_version (tree s), s))
       (\<lambda>version.
          let backup_root =
                [''Backups'', ''Origin_v'' @ py_str ev version @ ''_'' @ strftime_now ev]
          in bindS (ensure_dirS backup_root)
               (\<lambda>_. wrapS MSPBackupError
                      (bindS (backup_dirs backup_root dirs_to_backup)
                         (\<lambda>_. bindS (\<lambda>s. (get_current_version (tree s), s))
                                 (\<lambda>prev_version.
                                    bindS (\<lambda>s. save_jsonS backup_root ''backup_metadata''
                                                 (JObj [(''timestamp'', JStr (now_iso ev 0)),
                                                        (''prev_version'', prev_version),
                                                        (''instance_id'',
                                                           (case instance_id s of
                                                              None \<Rightarrow> JNull
                                                            | Some i \<Rightarrow> JStr i))]) s)
                                      (\<lambda>_. returnS backup_root))))))"

text \<open>\<^verbatim>\<open>_verify_origin_integrity\<close>, file by file in the order of the source.\<close>

definition verify_file ::
  "filesystem \<Rightarrow> path \<Rightarrow> string \<Rightarrow> (string \<times> string) option \<Rightarrow> error + unit" where
  "verify_file t dir name required =
     (if \<not> path_exists t (dir @ [name]) then Inr ()
      else bindE (load_json t (dir @ [name]))
             (\<lambda>data.
                if \<not> truthy data
                then Inl (MSPConsolidationError_msg
                            (''Verification failed: File '' @ name @ '' is empty or invalid.''))
                else case required of
                       None \<Rightarrow> Inr ()
                     | Some (key, failure) \<Rightarrow>
                         bindE (py_has_key data key)
                           (\<lambda>has. if \<not> has then Inl (MSPConsolidationError_msg failure)
                                   else Inr ())))"

definition verify_origin_integrity :: "filesystem \<Rightarrow> error + unit" where
  "verify_origin_integrity t =
     bindE (verify_file t episodic_dir ''Episodic_memory.json''
              (Some (''episodes'',
                     ''Verification failed: Episodic memory missing '' @ quoted ''episodes''
                     @ '' key.'')))
       (\<lambda>_. bindE (verify_file t semantic_dir ''Semantic_memory.json''
                      (Some (''entries'',
                             ''Verification failed: Semantic memory missing '' @ quoted ''entries''
                             @ '' key.'')))
               (\<lambda>_. verify_file t sensory_dir ''Sensory_memory.json'' None))"

text \<open>\<^verbatim>\<open>_merge_episodic\<close>: every buffered episode is appended to the master list.\<close>

definition merge_episodic :: "env \<Rightarrow> json \<Rightarrow> msp \<Rightarrow> unit outcome" where
  "merge_episodic ev buffer_data =
     bindS (load_jsonS (episodic_dir @ [''Episodic_memory.json'']))
       (\<lambda>loaded.
          bindS (liftE (py_has_key loaded ''episodes''))
            (\<lambda>has.
               let master_data =
                     (if \<not> has
                      then JObj [(''system'', JStr ''EVA''), (''user_id'', JStr ''User01''),
                                 (''timestamp'', JStr (now_iso ev 1)), (''episodes'', JArr [])]
                      else loaded)
               in bindS (liftE (py_get buffer_data ''episodes'' (JArr [])))
                    (\<lambda>new_episodes.
                       bindS (liftE (py_subscript master_data ''episodes''))
                         (\<lambda>l. case (l, master_data) of
                                 (JArr xs, JObj md) \<Rightarrow>
                                   bindS (liftE (py_iter new_episodes))
                                     (\<lambda>items.
                                        save_jsonS episodic_dir ''Episodic_memory''
                                          (JObj (dict_set (dict_set md ''episodes''
                                                             (JArr (xs @ items)))
                                                   ''timestamp'' (JStr (now_iso ev 2)))))
                               | (JArr xs, _) \<Rightarrow> raiseS TypeError
                               | _ \<Rightarrow> raiseS AttributeError))))"

text \<open>
  The first loop of \<^verbatim>\<open>_merge_semantic\<close>: the buffered entries that are admitted.
  With a validator the test is \<^verbatim>\<open>validate_for_consolidation\<close>, without one the
  plain threshold.
\<close>

definition admits :: "bool \<Rightarrow> dict \<Rightarrow> error + bool" where
  "admits has_validator entry =
     (if has_validator then validate_for_consolidation entry
      else case as_number (dict_get_default entry ''confidence'' (JInt 0)) of
             None \<Rightarrow> Inl TypeError
           | Some c \<Rightarrow> Inr (c > 0.7))"

fun admit_loop :: "bool \<Rightarrow> json list \<Rightarrow> error + dict list" where
  "admit_loop has_validator [] = Inr []"
| "admit_loop has_validator (entry # entries) =
     (case entry of
        JObj e \<Rightarrow>
          bindE (admits has_validator e)
            (\<lambda>ok. bindE (admit_loop has_validator entries)
                     (\<lambda>rest. Inr (if ok then e # rest else rest)))
      | _ \<Rightarrow> Inl AttributeError)"

text \<open>
  \<^verbatim>\<open>concept_map\<close>, a dict from concepts to entries: a stored key keeps its place
  when its value is replaced.
\<close>

type_synonym concept_map = "(json \<times> dict) list"

fun cm_get :: "concept_map \<Rightarrow> json \<Rightarrow> dict option" where
  "cm_get [] k = None"
| "cm_get ((k', v) # cm) k = (if key_eq k' k then Some v else cm_get cm k)"

fun cm_set :: "concept_map \<Rightarrow> json \<Rightarrow> dict \<Rightarrow> concept_map" where
  "cm_set [] k v = [(k, v)]"
| "cm_set ((k', v') # cm) k v =
     (if key_eq k' k then (k', v) # cm else (k', v') # cm_set cm k v)"

text \<open>The loop over the entries of the master file.\<close>

fun index_master :: "concept_map \<Rightarrow> json list \<Rightarrow> error + concept_map" where
  "index_master cm [] = Inr cm"
| "index_master cm (entry # entries) =
     (case entry of
        JObj e \<Rightarrow>
          (let concept = dict_get e ''concept''
           in if truthy concept
              then (if hashable concept then index_master (cm_set cm concept e) entries
                    else Inl TypeError)
              else index_master cm entries)
      | _ \<Rightarrow> Inl AttributeError)"

text \<open>
  The loop over the admitted entries. An admitted entry has passed the threshold
  test, so its confidence is a number; comparing it with a confidence that is not a
  number raises \<^verbatim>\<open>TypeError\<close>.
\<close>

definition confidence_gt :: "dict \<Rightarrow> dict \<Rightarrow> error + bool" where
  "confidence_gt entry existing =
     (case (as_number (dict_get_default entry ''confidence'' (JInt 0)),
            as_number (dict_get_default existing ''confidence'' (JInt 0))) of
        (Some a, Some b) \<Rightarrow> Inr (a > b)
      | _ \<Rightarrow> Inl TypeError)"

fun dedup_loop :: "concept_map \<Rightarrow> dict list \<Rightarrow> error + concept_map" where
  "dedup_loop cm [] = Inr cm"
| "dedup_loop cm (entry # entries) =
     (let concept = dict_get entry ''concept''
      in if truthy concept
         then (if \<not> hashable concept then Inl TypeError
               else case cm_get cm concept of
                      Some existing \<Rightarrow>
                        if existing \<noteq> []
                        then bindE (confidence_gt entry existing)
                               (\<lambda>higher. dedup_loop
                                           (if higher then cm_set cm concept entry else cm)
                                           entries)
                        else dedup_loop (cm_set cm concept entry) entries
                    | None \<Rightarrow> dedup_loop (cm_set cm concept entry) entries)
         else dedup_loop cm entries)"

text \<open>
  The entries of the master file after \<^verbatim>\<open>_merge_semantic\<close>, from the master
  document (after the missing-key replacement) and the buffer document.
\<close>

definition merged_entries :: "bool \<Rightarrow> json \<Rightarrow> json \<Rightarrow> error + json list" where
  "merged_entries has_validator master_data buffer_data =
     bindE (bindE (py_get buffer_data ''entries'' (JArr [])) py_iter)
       (\<lambda>buffered.
          bindE (admit_loop has_validator buffered)
            (\<lambda>new_entries.
               bindE (bindE (py_get master_data ''entries'' (JArr [])) py_iter)
                 (\<lambda>master_entries.
                    bindE (index_master [] master_entries)
                      (\<lambda>cm0. bindE (dedup_loop cm0 new_entries)
                                (\<lambda>cm. Inr (map (\<lambda>kv. JObj (snd kv)) cm))))))"

definition merge_semantic :: "json \<Rightarrow> msp \<Rightarrow> unit outcome" where
  "merge_semantic buffer_data =
     bindS (load_jsonS (semantic_dir @ [''Semantic_memory.json'']))
       (\<lambda>loaded.
          bindS (liftE (py_has_key loaded ''entries''))
            (\<lambda>has.
               let master_data = (if \<not> has then JObj [(''entries'', JArr [])] else loaded)
               in bindS (\<lambda>s. (merged_entries (semantic_validator s) master_data buffer_data, s))
                    (\<lambda>entries.
                       case master_data of
                         JObj md \<Rightarrow>
                           save_jsonS semantic_dir ''Semantic_memory''
                             (JObj (dict_set md ''entries'' (JArr entries)))
                       | _ \<Rightarrow> raiseS TypeError)))"

text \<open>
  \<^verbatim>\<open>_merge_sensory\<close>: with a validator only the entries with a valid result are
  taken, an exception of the validator skips the entry; without one all are taken.
\<close>

definition sensory_accepts :: "bool \<Rightarrow> json \<Rightarrow> bool" where
  "sensory_accepts has_validator entry =
     (if has_validator
      then (case entry of
              JObj e \<Rightarrow> (case sensory_validate e of Inl err \<Rightarrow> False | Inr result \<Rightarrow> valid result)
            | _ \<Rightarrow> False)
      else True)"

definition merge_sensory :: "json \<Rightarrow> msp \<Rightarrow> unit outcome" where
  "merge_sensory buffer_data =
     bindS (load_jsonS (sensory_dir @ [''Sensory_memory.json'']))
       (\<lambda>loaded.
          bindS (liftE (py_has_key loaded ''entries''))
            (\<lambda>has.
               let master_data = (if \<not> has then JObj [(''entries'', JArr [])] else loaded)
               in bindS (liftE (bindE (py_get buffer_data ''entries'' (JArr [])) py_iter))
                    (\<lambda>buffered.
                       bindS (\<lambda>s. (Inr (filter (sensory_accepts (sensory_validator s)) buffered), s))
                         (\<lambda>new_entries.
                            bindS (liftE (py_subscript master_data ''entries''))
                              (\<lambda>l. case (l, master_data) of
                                      (JArr xs, JObj md) \<Rightarrow>
                                        save_jsonS sensory_dir ''Sensory_memory''
                                          (JObj (dict_set md ''entries'' (JArr (xs @ new_entries))))
                                    | (JArr xs, _) \<Rightarrow> raiseS TypeError
                                    | _ \<Rightarrow> raiseS AttributeError)))))"

definition delete_buffer :: "msp \<Rightarrow> unit outcome" where
  "delete_buffer s =
     (case get_instance_path s of
        Inl e \<Rightarrow> (Inl e, s)
      | Inr instance_path \<Rightarrow>
          (case (if path_exists (tree s) instance_path
                 then rmtree (tree s) instance_path else Inr (tree s)) of
             Inl e \<Rightarrow> (Inl e, s)
           | Inr t \<Rightarrow>
               (Inr (), s\<lparr>tree := t, instance_id := None, session_id := None,
                          session_episode_count := 0\<rparr>)))"

text \<open>
  \<^verbatim>\<open>consolidate_to_origin\<close>. The test for an instance is outside the \<^verbatim>\<open>try\<close>;
  every exception raised inside it is wrapped in \<^verbatim>\<open>MSPConsolidationError\<close>.
\<close>

definition consolidate_to_origin :: "env \<Rightarrow> msp \<Rightarrow> json outcome" where
  "consolidate_to_origin ev s =
     (case instance_id s of
        None \<Rightarrow> (Inl (RuntimeError ''No active instance''), s)
      | Some i \<Rightarrow>
          wrapS MSPConsolidationError
            (bindS (create_origin_backup ev)
               (\<lambda>backup_path.
                  let instance_path = buffer_dir @ [''instance_'' @ i];
                      episodic_buffer_path =
                        instance_path @ [''01_Episodic_memory'', ''Episodic_memory.json''];
                      semantic_buffer_path =
                        instance_path @ [''02_Semantic_memory'', ''Semantic_memory.json''];
                      sensory_buffer_path =
                        instance_path @ [''03_Sensory_memory'', ''Sensory_memory.json'']
                  in (\<lambda>s1.
                        if \<not> list_ex (path_exists (tree s1))
                               [episodic_buffer_path, semantic_buffer_path, sensory_buffer_path]
                        then (get_current_version (tree s1), s1)
                        else
                          bindS (load_jsonS episodic_buffer_path)
                            (\<lambda>episodic_buffer.
                               bindS (load_jsonS semantic_buffer_path)
                                 (\<lambda>semantic_buffer.
                                    bindS (load_jsonS sensory_buffer_path)
                                      (\<lambda>sensory_buffer.
                                         bindS (merge_episodic ev episodic_buffer)
                                           (\<lambda>_. bindS (merge_semantic semantic_buffer)
                                             (\<lambda>_. bindS (merge_sensory sensory_buffer)
                                               (\<lambda>_. bindS (\<lambda>s2. (verify_origin_integrity (tree s2), s2))
                                                 (\<lambda>_. bindS (increment_version ev 3)
                                                   (\<lambda>_. bindS (\<lambda>s2. (get_current_version (tree s2), s2))
                                                     (\<lambda>new_version.
                                                        bindS delete_buffer
                                                          (\<lambda>_. returnS new_version)))))))))) s1)))
            s)"

section \<open>A concrete environment and state\<close>

text \<open>
  The closed examples below run the operations with this clock and id source, from
  this state: an empty store, instance \<^verbatim>\<open>THA_01_S01\<close>, session \<^verbatim>\<open>S01\<close>, strict
  validation with all validators present.
\<close>

definition example_env :: env where
  "example_env =
     \<lparr>now_iso = (\<lambda>k. ''2026-01-01T00:00:00Z''), strftime_now = ''20260101_000000'',
      uuid_hex = ''0123456789abcdef0123456789abcdef'', str_other = (\<lambda>f. ''?'')\<rparr>"

definition example_state :: msp where
  "example_state =
     \<lparr>tree = Map.empty, instance_id = Some ''THA_01_S01'', session_id = Some ''S01'',
      session_episode_count = 0, validation_mode = ''strict'',
      episodic_validator = True, semantic_validator = True, sensory_validator = True,
      confidence_updater = True\<rparr>"

section \<open>Properties of the confidence updater\<close>

text \<open>
  C5. For every confidence value the derived epistemic status is a step function of
  the confidence alone: hypothesis below 0.45, provisional from 0.45 up to but not
  including 0.80, confirmed from 0.80 on; there is no other output.
\<close>

theorem get_epistemic_status_step:
  "(get_epistemic_status c = HYPOTHESIS) = (c < 0.45)
   \<and> (get_epistemic_status c = PROVISIONAL) = (0.45 \<le> c \<and> c < 0.80)
   \<and> (get_epistemic_status c = CONFIRMED) = (0.80 \<le> c)"
  by (auto simp: get_epistemic_status_def EPISTEMIC_THRESHOLDS_CONFIRMED_def
        EPISTEMIC_THRESHOLDS_PROVISIONAL_def)

text \<open>
  In the suppressed state both multipliers are zero, so a signal adds nothing; what
  is left of a signal is the floor of \<^verbatim>\<open>force_confirmed\<close>.
\<close>

lemma apply_signal_suppressed:
  "apply_signal (RESOLUTION_MULTIPLIERS SUPPRESSED) h c s =
     (if s = USER_AFFIRMATION \<and> \<not> signal_skipped h USER_AFFIRMATION
      then max c EPISTEMIC_THRESHOLDS_CONFIRMED else c)"
  by (cases s) (simp_all add: apply_signal_def mk_modifier_def Let_def)

lemma signals_loop_suppressed:
  "signals_loop (RESOLUTION_MULTIPLIERS SUPPRESSED) h c signals =
     (if USER_AFFIRMATION \<in> set signals \<and> \<not> signal_skipped h USER_AFFIRMATION
      then max c EPISTEMIC_THRESHOLDS_CONFIRMED else c)"
proof (induction signals arbitrary: c)
  case Nil
  then show ?case by simp
next
  case (Cons s signals)
  show ?case
    unfolding signals_loop.simps Cons.IH apply_signal_suppressed
    by auto
qed

lemma signal_skipped_USER_AFFIRMATION:
  "signal_skipped h USER_AFFIRMATION = (times_applied_of h USER_AFFIRMATION > 0)"
  by (simp add: signal_skipped_def mk_modifier_def Let_def)

text \<open>
  C2, as the claim states it, fails: a suppressed entry of confidence 0.3 that receives
  USER\_AFFIRMATION for the first time comes out at 0.80.
\<close>

theorem calculate_confidence_suppressed_counterexample:
  "calculate_confidence 0.3 [USER_AFFIRMATION] SUPPRESSED Map.empty \<noteq> 0.3"
  by (simp add: calculate_confidence_def apply_signal_def signal_skipped_def times_applied_of_def
      mk_modifier_def Let_def EPISTEMIC_THRESHOLDS_CONFIRMED_def)

text \<open>
  C2, amended. For a suppressed entry with confidence in [0, 1] and every batch of
  signals, \<^verbatim>\<open>calculate_confidence\<close> returns the confidence unchanged, except when
  the batch holds USER\_AFFIRMATION and the history records no earlier application of
  it: then the result is the larger of the confidence and 0.80.
\<close>

theorem calculate_confidence_suppressed:
  assumes "0 \<le> c" and "c \<le> 1"
  shows "calculate_confidence c signals SUPPRESSED h =
     (if USER_AFFIRMATION \<in> set signals \<and> times_applied_of h USER_AFFIRMATION \<le> 0
      then max c 0.80 else c)"
  using assms
  unfolding calculate_confidence_def Let_def signals_loop_suppressed
    signal_skipped_USER_AFFIRMATION EPISTEMIC_THRESHOLDS_CONFIRMED_def
  by auto

theorem calculate_confidence_suppressed_witness:
  "calculate_confidence 0.5 [REPEATED_OCCURRENCE, CONTRADICTION_BY_USER] SUPPRESSED Map.empty = 0.5
   \<and> calculate_confidence 0.3 [USER_AFFIRMATION] SUPPRESSED [USER_AFFIRMATION \<mapsto> 1] = 0.3
   \<and> calculate_confidence 0.3 [CONFLICT_DETECTED, USER_AFFIRMATION] SUPPRESSED Map.empty = 0.8"
  using calculate_confidence_suppressed [of "0.5" "[REPEATED_OCCURRENCE, CONTRADICTION_BY_USER]" Map.empty]
    calculate_confidence_suppressed [of "0.3" "[USER_AFFIRMATION]" "[USER_AFFIRMATION \<mapsto> 1]"]
    calculate_confidence_suppressed [of "0.3" "[CONFLICT_DETECTED, USER_AFFIRMATION]" Map.empty]
  by (simp add: times_applied_of_def)

text \<open>
  C3. The cap of a signal is tested against the history as it was before the batch,
  and the history is updated only after the whole batch. A fresh entry (confidence
  0.3, unresolved, empty history) updated with one batch of four REPEATED\_OCCURRENCE
  signals gets the delta 0.05 * 0.5 four times and ends at 0.40 with a recorded count
  of 4, where the cap of three applications allows 0.375; a resolved entry of
  confidence 0.1 updated with two USER\_AFFIRMATION signals in one batch gets the
  delta 0.30 twice and ends at 1.0, where a single application gives 0.80.
\<close>

theorem update_entry_batch_exceeds_cap:
  "map_sum id (\<lambda>e. (dict_get e ''confidence'', dict_get e ''signal_history''))
     (update_entry 0.3 (create_initial_entry 0.3 ''tea'' ''a drink'' MEDIUM)
        [REPEATED_OCCURRENCE, REPEATED_OCCURRENCE, REPEATED_OCCURRENCE, REPEATED_OCCURRENCE])
   = Inr (JFloat 0.4, JObj [(''repeated_occurrence'', JInt 4)])
   \<and> calculate_confidence 0.1 [USER_AFFIRMATION, USER_AFFIRMATION] RESOLVED Map.empty = 1.0
   \<and> calculate_confidence 0.1 [USER_AFFIRMATION] RESOLVED Map.empty = 0.8"
  by code_simp

section \<open>Properties of the episodic validator\<close>

text \<open>
  C6. Phase 3 returns without an error whenever \<^verbatim>\<open>indexed_state\<close> is missing or
  empty, whatever the RI level, which it is not given; phase 1 asks an L3 episode for
  \<^verbatim>\<open>emotive_snapshot\<close> only. An L3 episode with the four required sections and
  an \<^verbatim>\<open>emotive_snapshot\<close> without \<^verbatim>\<open>indexed_state\<close> is therefore valid, with no
  error at all.
\<close>

theorem episodic_validate_L3_without_indexed_state:
  "map_sum id (\<lambda>r. (valid r, errors r))
     (episodic_validate
        [(''episode_header'', JObj [(''episode_type'', JStr ''interaction'')]),
         (''situation_context'', JObj [(''interaction_mode'', JStr ''casual'')]),
         (''turns'', JArr [JObj [(''turn_id'', JStr ''t1''), (''speaker'', JStr ''user'')]]),
         (''emotive_snapshot'', JObj [(''crosslinks'', JObj [])])]
        ''L3'')
   = Inr (True, [])"
  by code_simp

section \<open>Properties of the MSP engine\<close>

text \<open>
  C9. The RI-level projection is idempotent: filtering the result of a filtering again
  at the same level gives that result again, for every episode and every level, also
  when the clock has moved between the two calls (the first call has fixed the
  timestamp).
\<close>

theorem apply_ri_filter_idempotent:
  "apply_ri_filter now2 (apply_ri_filter now1 episode ri_level) ri_level
   = apply_ri_filter now1 episode ri_level"
  by (simp add: apply_ri_filter_def dict_get_def dict_get_default_def)

text \<open>How the parts of an operation fail, and what they leave alone.\<close>

lemma bindS_E:
  assumes "bindS m f s = (r, s')"
  obtains (fail) e where "m s = (Inl e, s')" "r = Inl e"
        | (ok) x s1 where "m s = (Inr x, s1)" "f x s1 = (r, s')"
  using assms by (auto simp: bindS_def split: prod.splits sum.splits)

lemma liftE_eq: "liftE m s = (r, s') \<Longrightarrow> m = r \<and> s' = s"
  by (auto simp: liftE_def)

lemma load_jsonS_eq: "load_jsonS p s = (r, s') \<Longrightarrow> load_json (tree s) p = r \<and> s' = s"
  by (auto simp: load_jsonS_def)

lemma load_json_error: "load_json t p = Inl e \<Longrightarrow> e = OSError"
  by (auto simp: load_json_def split: option.splits node.splits)

lemma ensure_dir_error: "ensure_dir t p = Inl e \<Longrightarrow> e = OSError"
  by (auto simp: ensure_dir_def split: if_splits)

lemma save_json_error: "save_json t dir stem data = (Inl e, t') \<Longrightarrow> e = OSError"
  by (auto simp: save_json_def Let_def dest: ensure_dir_error split: sum.splits if_splits)

lemma save_jsonS_frame:
  "save_jsonS dir stem data s = (r, s') \<Longrightarrow> s' = s\<lparr>tree := tree s'\<rparr>"
  by (auto simp: save_jsonS_def split: prod.splits)

lemma save_jsonS_error: "save_jsonS dir stem data s = (Inl e, s') \<Longrightarrow> e = OSError"
  by (auto simp: save_jsonS_def dest: save_json_error split: prod.splits)

lemma py_has_key_error: "py_has_key x k = Inl e \<Longrightarrow> e = TypeError"
  by (cases x) auto

lemma py_subscript_error: "py_subscript x k = Inl e \<Longrightarrow> e = TypeError \<or> e = KeyError"
  by (cases x) (auto split: option.splits)

lemma append_to_buffer_error:
  "append_to_buffer b k fresh item = Inl e \<Longrightarrow> e = TypeError \<or> e = KeyError \<or> e = AttributeError"
  by (auto simp: append_to_buffer_def bindE_def Let_def simp del: py_subscript.simps
      dest: py_has_key_error py_subscript_error split: sum.splits json.splits if_splits)

lemma get_instance_path_error:
  "get_instance_path s = Inl e \<Longrightarrow> e = RuntimeError ''No active instance''"
  by (auto simp: get_instance_path_def split: option.splits)

lemma episode_checkpoint_error:
  "episode_checkpoint s ep lvl = Inl e \<Longrightarrow> \<exists>ms. e = MSPValidationError ms"
  by (auto simp: episode_checkpoint_def split: if_splits sum.splits)

lemma append_recordS_error:
  assumes "append_recordS dir stem key fresh item s = (Inl e, s')"
  shows "e \<in> {OSError, TypeError, KeyError, AttributeError}"
  using assms unfolding append_recordS_def
  by (elim bindS_E) (auto dest!: load_jsonS_eq load_json_error liftE_eq append_to_buffer_error
        save_jsonS_error)

lemma append_recordS_frame:
  assumes "append_recordS dir stem key fresh item s = (r, s')"
  shows "s' = s\<lparr>tree := tree s'\<rparr>"
  using assms unfolding append_recordS_def
  by (elim bindS_E) (auto dest!: load_jsonS_eq liftE_eq dest: save_jsonS_frame)

text \<open>
  Below the cap, \<^verbatim>\<open>write_episode\<close> fails only for validation, a missing instance
  or the buffer file, and a write that returns has changed the file tree and the
  counter only.
\<close>

lemma write_episode_below_cap:
  assumes sid: "session_id s = Some sid" and lt: "session_episode_count s < 30"
    and w: "write_episode ev ep lvl s = (r, s')"
  shows "(\<forall>e. r = Inl e \<longrightarrow>
            e \<in> {OSError, TypeError, KeyError, AttributeError, RuntimeError ''No active instance''}
            \<or> (\<exists>ms. e = MSPValidationError ms))
       \<and> (\<forall>x. r = Inr x \<longrightarrow>
            s' = s\<lparr>tree := tree s', session_episode_count := session_episode_count s + 1\<rparr>)"
proof (cases "episode_checkpoint s ep lvl")
  case (Inl e)
  with sid lt w show ?thesis
    by (auto simp: write_episode_def dest: episode_checkpoint_error)
next
  case (Inr u)
  with sid lt w have
    b1: "bindS (liftE (get_instance_path s))
           (\<lambda>instance_path.
              bindS (append_recordS (instance_path @ [''01_Episodic_memory''])
                       ''Episodic_memory'' ''episodes''
                       (fresh_buffer ev s sid ''episodes'')
                       (JObj (stamped_episode ev s sid ep lvl)))
                (\<lambda>_ s1.
                   (Inr (episode_id_of ev s sid ep),
                    s1\<lparr>session_episode_count := session_episode_count s1 + 1\<rparr>))) s = (r, s')"
    by (simp add: write_episode_def)
  from b1 show ?thesis
  proof (cases rule: bindS_E)
    case (fail e)
    then show ?thesis by (auto dest!: liftE_eq get_instance_path_error)
  next
    case (ok ip s1)
    then have s1: "s1 = s" by (auto dest: liftE_eq)
    from ok(2) show ?thesis unfolding s1
    proof (cases rule: bindS_E)
      case (fail e)
      then show ?thesis by (auto dest!: append_recordS_error)
    next
      case (ok u s4)
      from append_recordS_frame [OF ok(1)] have s4: "s4 = s\<lparr>tree := tree s4\<rparr>" .
      from ok(2) have "s' = s4\<lparr>session_episode_count := session_episode_count s4 + 1\<rparr>"
        and "\<exists>x. r = Inr x"
        by auto
      then show ?thesis by (subst (asm) (1 2) s4) auto
    qed
  qed
qed

lemma start_session_resets:
  "start_session requested s = (Inr sid, s') \<Longrightarrow>
     session_episode_count s' = 0 \<and> session_id s' = Some sid"
  unfolding start_session_def
  by (auto split: option.splits elim!: bindS_E)

text \<open>
  C4. In a session \<open>sid\<close>, \<^verbatim>\<open>write_episode\<close> raises the capacity error exactly when
  the episode counter has already reached 30, and then changes nothing; a write that
  returns has incremented the counter by one and left the session open. A session
  starts with the counter at 0. So the 30th write of a session (counter 29) is not
  refused for capacity and moves the counter to 30, and the 31st is refused.
\<close>

theorem write_episode_capacity:
  assumes "session_id s = Some sid"
  shows "(fst (write_episode ev episode_data ri_level s)
            = Inl (RuntimeError (''Session '' @ sid
                     @ '' reached max 30 episodes. Call end_session() first.'')))
         = (session_episode_count s \<ge> 30)
       \<and> (session_episode_count s \<ge> 30 \<longrightarrow>
            snd (write_episode ev episode_data ri_level s) = s)
       \<and> (\<forall>x. fst (write_episode ev episode_data ri_level s) = Inr x \<longrightarrow>
            session_episode_count (snd (write_episode ev episode_data ri_level s))
              = session_episode_count s + 1
            \<and> session_id (snd (write_episode ev episode_data ri_level s)) = Some sid)
       \<and> (\<forall>requested s0 sid0 s1. start_session requested s0 = (Inr sid0, s1) \<longrightarrow>
            session_episode_count s1 = 0 \<and> session_id s1 = Some sid0)"
proof (cases "session_episode_count s \<ge> 30")
  case True
  with assms show ?thesis by (auto simp: write_episode_def dest: start_session_resets)
next
  case False
  then have lt: "session_episode_count s < 30" by simp
  obtain r s' where w: "write_episode ev episode_data ri_level s = (r, s')"
    by (cases "write_episode ev episode_data ri_level s")
  from write_episode_below_cap [OF assms lt w]
  have e: "\<And>e. r = Inl e \<Longrightarrow>
             e \<in> {OSError, TypeError, KeyError, AttributeError, RuntimeError ''No active instance''}
             \<or> (\<exists>ms. e = MSPValidationError ms)"
    and k: "\<And>x. r = Inr x \<Longrightarrow>
             s' = s\<lparr>tree := tree s', session_episode_count := session_episode_count s + 1\<rparr>"
    by blast+
  have "r \<noteq> Inl (RuntimeError (''Session '' @ sid
                     @ '' reached max 30 episodes. Call end_session() first.''))"
    using e by auto
  moreover have "\<And>x. r = Inr x \<Longrightarrow>
      session_episode_count s' = session_episode_count s + 1 \<and> session_id s' = Some sid"
  proof -
    fix x assume "r = Inr x"
    from k [OF this]
    have "s' = s\<lparr>tree := tree s', session_episode_count := session_episode_count s + 1\<rparr>" .
    then have "session_episode_count s' =
        session_episode_count
          (s\<lparr>tree := tree s', session_episode_count := session_episode_count s + 1\<rparr>)"
      and "session_id s' =
        session_id (s\<lparr>tree := tree s', session_episode_count := session_episode_count s + 1\<rparr>)"
      by simp_all
    with assms show "session_episode_count s' = session_episode_count s + 1 \<and> session_id s' = Some sid"
      by simp
  qed
  ultimately show ?thesis using False w by (auto dest: start_session_resets)
qed

text \<open>
  The 30th write of session \<^verbatim>\<open>S01\<close> returns and the 31st raises the capacity
  error.
\<close>

theorem write_episode_capacity_witness:
  "fst (write_episode example_env [(''summary'', JStr ''thirtieth'')] ''L1''
         (example_state\<lparr>session_episode_count := 29\<rparr>))
     = Inr (JStr ''ep_S01_030_012345'')
   \<and> session_episode_count
         (snd (write_episode example_env [(''summary'', JStr ''thirtieth'')] ''L1''
                (example_state\<lparr>session_episode_count := 29\<rparr>))) = 30
   \<and> fst (write_episode example_env [(''summary'', JStr ''one more'')] ''L1''
           (snd (write_episode example_env [(''summary'', JStr ''thirtieth'')] ''L1''
                  (example_state\<lparr>session_episode_count := 29\<rparr>))))
     = Inl (RuntimeError ''Session S01 reached max 30 episodes. Call end_session() first.'')"
proof -
  let ?s29 = "example_state\<lparr>session_episode_count := 29\<rparr>"
  let ?w = "write_episode example_env [(''summary'', JStr ''thirtieth'')] ''L1'' ?s29"
  have sid: "session_id ?s29 = Some ''S01''"
    by (simp add: example_state_def)
  have ok: "fst ?w = Inr (JStr ''ep_S01_030_012345'')"
    by code_simp
  from write_episode_capacity [OF sid, of example_env "[(''summary'', JStr ''thirtieth'')]" "''L1''"] ok
  have cnt: "session_episode_count (snd ?w) = 30" and sid': "session_id (snd ?w) = Some ''S01''"
    by (simp_all add: example_state_def)
  from write_episode_capacity [OF sid', of example_env "[(''summary'', JStr ''one more'')]" "''L1''"] cnt
  have "fst (write_episode example_env [(''summary'', JStr ''one more'')] ''L1'' (snd ?w))
     = Inl (RuntimeError (''Session '' @ ''S01''
                     @ '' reached max 30 episodes. Call end_session() first.''))"
    by simp
  with ok cnt show ?thesis by simp
qed


lemma below_Nil [simp]: "below [] q"
  by (simp add: below_def)










lemma msp_tree_same: "s' = s\<lparr>tree := tree s'\<rparr> \<Longrightarrow> s = s'\<lparr>tree := tree s\<rparr>"
  by (metis msp.surjective msp.update_convs(1))
























text \<open>
  C7. A failure of the backup step is raised by \<^verbatim>\<open>_create_origin_backup\<close> as
  \<^verbatim>\<open>MSPBackupError\<close>, but \<^verbatim>\<open>consolidate_to_origin\<close> calls it inside its own
  \<^verbatim>\<open>try\<close>, whose \<^verbatim>\<open>except Exception\<close> turns it into
  \<^verbatim>\<open>MSPConsolidationError\<close>. Here the backup directory of this version and second
  exists already (a second consolidation within the same second), so the copy of
  the episodic directory fails.
\<close>

theorem consolidate_to_origin_backup_failure_class:
  "fst (consolidate_to_origin example_env
         (example_state
            \<lparr>tree := [[''01_Episodic_memory''] \<mapsto> Dir,
                      [''Backups''] \<mapsto> Dir,
                      [''Backups'', ''Origin_v1_20260101_000000''] \<mapsto> Dir,
                      [''Backups'', ''Origin_v1_20260101_000000'', ''01_Episodic_memory'']
                        \<mapsto> Dir]\<rparr>))
   = Inl (MSPConsolidationError (MSPBackupError OSError))"
  by code_simp

end
